theory Spec2Isabelle
  imports Main "HOL-Library.Word"
begin

unbundle bit_operations_syntax

section \<open>iremoted: events of the Apple Infrared Remote\<close>

text \<open>
  A shallow embedding of \<^verbatim>\<open>iremoted.c\<close>. Every C function of the file is a HOL function of
  the same name. The process state the C code reads and writes (standard output, standard
  error, the three file-scope variables) is the record \<open>world\<close>; every call into IOKit,
  CoreFoundation, Carbon or libc is logged in \<open>trace\<close> and answered by the environment
  \<open>os_env\<close>, so that the order of the framework calls and the reaction to their failures can
  be stated and proved.
\<close>

subsection \<open>Scalar types and constants\<close>

type_synonym IOHIDElementCookie = "32 word"  \<comment> \<open>printed through the cast \<^verbatim>\<open>(UInt32)\<close>\<close>
type_synonym IOReturn = "32 word"            \<comment> \<open>\<^verbatim>\<open>kern_return_t\<close>, a 32-bit int\<close>
type_synonym HRESULT = "32 word"
type_synonym OSStatus = "32 word"
type_synonym AEEventID = "32 word"           \<comment> \<open>a four-character code\<close>
type_synonym long = int                      \<comment> \<open>the value \<^verbatim>\<open>CFNumberGetValue\<close> stores\<close>

definition kIOReturnSuccess :: IOReturn where "kIOReturnSuccess = 0"
definition KERN_SUCCESS :: IOReturn where "KERN_SUCCESS = 0"
definition S_OK :: HRESULT where "S_OK = 0"
definition noErr :: OSStatus where "noErr = 0"

text \<open>\<^verbatim>\<open>EX_OSERR\<close> of \<^verbatim>\<open><sysexits.h>\<close>.\<close>
definition EX_OSERR :: int where "EX_OSERR = 71"

text \<open>The enum of lines 73-77: four-character constants, most significant character first.\<close>
definition keynoteEventClass :: AEEventID where "keynoteEventClass = 0x4B6E7463"
definition slideForward :: AEEventID where "slideForward = 0x73746546"
definition slideBackward :: AEEventID where "slideBackward = 0x73746542"

text \<open>Usage page and usages of \<^verbatim>\<open><IOKit/hid/IOHIDUsageTables.h>\<close>.\<close>
definition kHIDPage_GenericDesktop :: long where "kHIDPage_GenericDesktop = 0x01"
definition kHIDUsage_GD_SystemAppMenu :: long where "kHIDUsage_GD_SystemAppMenu = 0x86"
definition kHIDUsage_GD_SystemMenu :: long where "kHIDUsage_GD_SystemMenu = 0x89"
definition kHIDUsage_GD_SystemMenuRight :: long where "kHIDUsage_GD_SystemMenuRight = 0x8A"
definition kHIDUsage_GD_SystemMenuLeft :: long where "kHIDUsage_GD_SystemMenuLeft = 0x8B"
definition kHIDUsage_GD_SystemMenuUp :: long where "kHIDUsage_GD_SystemMenuUp = 0x8C"
definition kHIDUsage_GD_SystemMenuDown :: long where "kHIDUsage_GD_SystemMenuDown = 0x8D"

text \<open>Keys of an element dictionary, \<^verbatim>\<open><IOKit/hid/IOHIDKeys.h>\<close>.\<close>
definition kIOHIDElementCookieKey :: string where "kIOHIDElementCookieKey = ''ElementCookie''"
definition kIOHIDElementUsageKey :: string where "kIOHIDElementUsageKey = ''Usage''"
definition kIOHIDElementUsagePageKey :: string where "kIOHIDElementUsagePageKey = ''UsagePage''"

subsection \<open>The conversions of printf\<close>

definition hex_digit :: "nat \<Rightarrow> char" where
  "hex_digit d = ''0123456789abcdef'' ! d"

fun show_hex :: "nat \<Rightarrow> string" where
  "show_hex n = (if n < 16 then [hex_digit n] else show_hex (n div 16) @ [hex_digit (n mod 16)])"

fun show_dec :: "nat \<Rightarrow> string" where
  "show_dec n = (if n < 10 then [hex_digit n] else show_dec (n div 10) @ [hex_digit (n mod 10)])"

declare show_hex.simps [simp del]
declare show_dec.simps [simp del]

text \<open>\<^verbatim>\<open>%#lx\<close>: hexadecimal with the prefix \<^verbatim>\<open>0x\<close>, which a zero value does not get.\<close>
definition fmt_alt_lx :: "32 word \<Rightarrow> string" where
  "fmt_alt_lx x = (if x = 0 then ''0'' else ''0x'' @ show_hex (unat x))"

text \<open>\<^verbatim>\<open>%x\<close> of an unsigned int and \<^verbatim>\<open>%d\<close> of an int.\<close>
definition fmt_x :: "32 word \<Rightarrow> string" where
  "fmt_x x = show_hex (unat x)"

definition fmt_d :: "32 word \<Rightarrow> string" where
  "fmt_d x = (if sint x < 0 then ''-'' @ show_dec (nat (- sint x)) else show_dec (nat (sint x)))"

definition newline :: char where "newline = CHR 0x0A"

subsection \<open>Process state and the operating system\<close>

datatype os_fn =
    malloc
  | AEBuildAppleEvent | AESend | AEDisposeDesc
  | IOServiceNameMatching | IOServiceGetMatchingService
  | IOObjectGetClass | IOCreatePlugInInterfaceForService | IOObjectRelease
  | plugIn_QueryInterface | plugIn_Release
  | hid_copyMatchingElements | hid_open | hid_close | hid_Release | hid_allocQueue
  | queue_create | queue_addElement | queue_createAsyncEventSource | queue_setEventCallout
  | queue_start | queue_stop | queue_dispose | queue_Release | queue_getNextEvent
  | CFRunLoopGetCurrent | CFRunLoopAddSource | CFRunLoopRun

type_synonym os_call = "os_fn \<times> 32 word list"  \<comment> \<open>the function and the scalar arguments\<close>

record IOHIDEventStruct =
  elementCookie :: IOHIDElementCookie
  event_value :: "32 word"   \<comment> \<open>the field \<^verbatim>\<open>value\<close>, an SInt32\<close>

text \<open>
  An object stored in an element dictionary. \<open>CFNumber (Some n)\<close> is a number that
  \<^verbatim>\<open>CFNumberGetValue\<close> converts to the long \<open>n\<close>; for \<open>CFNumber None\<close> that conversion
  reports failure; \<open>CFOther\<close> is an object of any other type.
\<close>
datatype CFType = CFNumber "long option" | CFOther

type_synonym CFDictionary = "(string \<times> CFType) list"

text \<open>
  A pointer to an interface (\<^verbatim>\<open>IOHIDDeviceInterface **\<close>): null, or the address of an
  interface whose function-table pointer is non-null exactly when the flag is set.
\<close>
datatype interface_ptr = NULL | Interface bool

record world =
  stdout :: string
  stderr :: string
  trace :: "os_call list"
  buttonNextID :: IOHIDElementCookie
  buttonPreviousID :: IOHIDElementCookie
  driveKeynote :: int

text \<open>
  The environment fixes what each framework call answers: \<open>os_ret env f k\<close> is the status
  (or the address, 0 for a null pointer) returned by the call number \<open>k\<close> of \<open>f\<close>, counting from 0;
  \<open>os_event env k\<close> is the event stored by call \<open>k\<close> of \<^verbatim>\<open>getNextEvent\<close>. The run loop of the
  host fires the event source \<open>runloop_wakeups\<close> times and then returns, unless
  \<open>runloop_returns\<close> is false: then the process stays in the run loop for ever.
\<close>
record os_env =
  os_ret :: "os_fn \<Rightarrow> nat \<Rightarrow> 32 word"
  os_event :: "nat \<Rightarrow> IOHIDEventStruct"
  os_elements :: "CFDictionary list"
  os_hdi :: interface_ptr
  os_mach_error_string :: "32 word \<Rightarrow> string"
  runloop_wakeups :: nat
  runloop_returns :: bool

definition calls :: "os_fn \<Rightarrow> os_call list \<Rightarrow> nat" where
  "calls f tr = length (filter (\<lambda>c. fst c = f) tr)"

definition os_call :: "os_env \<Rightarrow> os_fn \<Rightarrow> 32 word list \<Rightarrow> world \<Rightarrow> 32 word \<times> world" where
  "os_call env f args w = (os_ret env f (calls f (trace w)), w\<lparr>trace := trace w @ [(f, args)]\<rparr>)"

definition printf :: "string \<Rightarrow> world \<Rightarrow> world" where
  "printf s w = w\<lparr>stdout := stdout w @ s\<rparr>"

definition fprintf_stderr :: "string \<Rightarrow> world \<Rightarrow> world" where
  "fprintf_stderr s w = w\<lparr>stderr := stderr w @ s\<rparr>"

text \<open>
  How a C function ends: it returns to its caller, it calls \<^verbatim>\<open>exit\<close>, or it dereferences a
  null pointer. A function that may also never return has an \<open>option\<close> around this.
\<close>
datatype 'a outcome = Return 'a world | Exit int world | Fault world

text \<open>Sequencing: what follows a call runs only when the call returned.\<close>
definition bind :: "'a outcome \<Rightarrow> ('a \<Rightarrow> world \<Rightarrow> 'b outcome) \<Rightarrow> 'b outcome" where
  "bind m f = (case m of Return x w \<Rightarrow> f x w | Exit c w \<Rightarrow> Exit c w | Fault w \<Rightarrow> Fault w)"

definition obind ::
    "'a outcome option \<Rightarrow> ('a \<Rightarrow> world \<Rightarrow> 'b outcome option) \<Rightarrow> 'b outcome option" where
  "obind m f =
     (case m of
        None \<Rightarrow> None
      | Some (Return x w) \<Rightarrow> f x w
      | Some (Exit c w) \<Rightarrow> Some (Exit c w)
      | Some (Fault w) \<Rightarrow> Some (Fault w))"

text \<open>The state in which an outcome leaves the process.\<close>
fun world_of :: "'a outcome \<Rightarrow> world" where
  "world_of (Return x w) = w"
| "world_of (Exit c w) = w"
| "world_of (Fault w) = w"

subsection \<open>KeynoteChangeSlide, lines 111-153\<close>

definition KeynoteChangeSlide :: "os_env \<Rightarrow> AEEventID \<Rightarrow> world \<Rightarrow> OSStatus outcome" where
  "KeynoteChangeSlide env eventID w =
     (let (err, w1) = os_call env AEBuildAppleEvent [keynoteEventClass, eventID] w in
      if err \<noteq> noErr then
        Return err
          (fprintf_stderr (''Failed to build Apple event (error '' @ fmt_d err @ '').'' @ [newline]) w1)
      else
        let (err, w2) = os_call env AESend [] w1;
            w3 = (if err \<noteq> noErr
                  then fprintf_stderr
                         (''Failed to send Apple event (error '' @ fmt_d err @ '').'' @ [newline]) w2
                  else w2);
            (_, w4) = os_call env AEDisposeDesc [] w3;
            (_, w5) = os_call env AEDisposeDesc [] w4
        in Return err w5)"

subsection \<open>print_errmsg_if_io_err and print_errmsg_if_err, lines 155-176\<close>

definition print_errmsg_if_io_err :: "os_env \<Rightarrow> 32 word \<Rightarrow> string \<Rightarrow> world \<Rightarrow> unit outcome" where
  "print_errmsg_if_io_err env expr msg w =
     (let err = expr in
      if err \<noteq> kIOReturnSuccess then
        Exit EX_OSERR
          (fprintf_stderr (''*** '' @ msg @ '' - '' @ os_mach_error_string env err @ ''('' @ fmt_x err
             @ '', '' @ fmt_d (err AND 0xffffff) @ '').'' @ [newline]) w)
      else Return () w)"

definition print_errmsg_if_err :: "bool \<Rightarrow> string \<Rightarrow> world \<Rightarrow> unit outcome" where
  "print_errmsg_if_err expr msg w =
     (if expr then Exit EX_OSERR (fprintf_stderr (''*** '' @ msg @ ''.'' @ [newline]) w)
      else Return () w)"

subsection \<open>QueueCallbackFunction, lines 178-201\<close>

text \<open>
  One pass through the body of the \<^verbatim>\<open>while\<close> loop: the call of \<^verbatim>\<open>getNextEvent\<close> and, when it
  returned 0, the handling of the event. The value returned is the new \<^verbatim>\<open>ret\<close>.
\<close>
definition QueueCallback_body :: "os_env \<Rightarrow> world \<Rightarrow> HRESULT outcome" where
  "QueueCallback_body env w =
     (let event = os_event env (calls queue_getNextEvent (trace w));
          (ret, w1) = os_call env queue_getNextEvent [] w
      in if ret = 0 then
           let w2 = printf (fmt_alt_lx (elementCookie event) @ '' ''
                      @ (if event_value event = 0 then ''depressed'' else ''pressed'') @ [newline]) w1
           in if event_value event \<noteq> 0 \<and> driveKeynote w2 \<noteq> 0 then
                if elementCookie event = buttonNextID w2 then
                  bind (KeynoteChangeSlide env slideForward w2) (\<lambda>_ w3. Return ret w3)
                else if elementCookie event = buttonPreviousID w2 then
                  bind (KeynoteChangeSlide env slideBackward w2) (\<lambda>_ w3. Return ret w3)
                else Return ret w2
              else Return ret w2
         else Return ret w1)"

text \<open>
  The loop \<^verbatim>\<open>while (!ret)\<close>; the result is \<open>None\<close> when it never ends. Of the four arguments
  of the C function only \<^verbatim>\<open>sender\<close>, the queue, is used: what the queue answers is in the
  environment.
\<close>
partial_function (option)
  QueueCallback_loop :: "os_env \<Rightarrow> HRESULT \<Rightarrow> world \<Rightarrow> unit outcome option" where
  "QueueCallback_loop env ret w =
     (if ret = 0 then
        (case QueueCallback_body env w of
           Return ret' w' \<Rightarrow> QueueCallback_loop env ret' w'
         | Exit c w' \<Rightarrow> Some (Exit c w')
         | Fault w' \<Rightarrow> Some (Fault w'))
      else Some (Return () w))"

definition QueueCallbackFunction :: "os_env \<Rightarrow> world \<Rightarrow> unit outcome option" where
  "QueueCallbackFunction env w = QueueCallback_loop env 0 w"

subsection \<open>addQueueCallbacks, lines 203-225\<close>

definition addQueueCallbacks :: "os_env \<Rightarrow> world \<Rightarrow> bool outcome" where
  "addQueueCallbacks env w =
     (let (privateData, w1) = os_call env malloc [] w in
      if privateData = 0 then Fault w1   \<comment> \<open>the store \<^verbatim>\<open>*privateData = hqi\<close>\<close>
      else
        let (ret, w2) = os_call env queue_createAsyncEventSource [] w1 in
        if ret \<noteq> kIOReturnSuccess then Return False w2
        else
          let (ret, w3) = os_call env queue_setEventCallout [] w2 in
          if ret \<noteq> kIOReturnSuccess then Return False w3
          else
            let (_, w4) = os_call env CFRunLoopGetCurrent [] w3;
                (_, w5) = os_call env CFRunLoopAddSource [] w4
            in Return True w5)"

subsection \<open>The run loop of the host\<close>

fun run_callbacks :: "os_env \<Rightarrow> nat \<Rightarrow> world \<Rightarrow> unit outcome option" where
  "run_callbacks env 0 w = Some (Return () w)"
| "run_callbacks env (Suc n) w =
     obind (QueueCallbackFunction env w) (\<lambda>_ w'. run_callbacks env n w')"

text \<open>
  \<^verbatim>\<open>CFRunLoopRun()\<close>: the callback is called each time the event source fires, which needs the
  source to have been added to the run loop.
\<close>
definition host_run_loop :: "os_env \<Rightarrow> world \<Rightarrow> unit outcome option" where
  "host_run_loop env w =
     (let (_, w1) = os_call env CFRunLoopRun [] w;
          n = (if calls CFRunLoopAddSource (trace w1) = 0 then 0 else runloop_wakeups env)
      in obind (run_callbacks env n w1)
           (\<lambda>_ w2. if runloop_returns env then Some (Return () w2) else None))"

subsection \<open>processQueue and doRun, lines 227-284\<close>

record cookie_struct =
  gButtonCookie_SystemAppMenu :: IOHIDElementCookie
  gButtonCookie_SystemMenuSelect :: IOHIDElementCookie
  gButtonCookie_SystemMenuRight :: IOHIDElementCookie
  gButtonCookie_SystemMenuLeft :: IOHIDElementCookie
  gButtonCookie_SystemMenuUp :: IOHIDElementCookie
  gButtonCookie_SystemMenuDown :: IOHIDElementCookie

text \<open>
  \<open>setupAndRun\<close> calls \<open>doRun\<close>, and \<open>doRun\<close> calls \<open>processQueue\<close>, only with the device
  interface it has found usable, so that argument is left out here.
\<close>
definition processQueue :: "os_env \<Rightarrow> cookie_struct \<Rightarrow> world \<Rightarrow> unit outcome option" where
  "processQueue env cookies w =
     (let (queue, w1) = os_call env hid_allocQueue [] w in
      if queue = 0 then
        Some (Return () (fprintf_stderr (''Failed to allocate event queue.'' @ [newline]) w1))
      else
        let (_, w2) = os_call env queue_create [0, 8] w1;
            (_, w3) = os_call env queue_addElement [gButtonCookie_SystemAppMenu cookies, 0] w2;
            (_, w4) = os_call env queue_addElement [gButtonCookie_SystemMenuSelect cookies, 0] w3;
            (_, w5) = os_call env queue_addElement [gButtonCookie_SystemMenuRight cookies, 0] w4;
            (_, w6) = os_call env queue_addElement [gButtonCookie_SystemMenuLeft cookies, 0] w5;
            (_, w7) = os_call env queue_addElement [gButtonCookie_SystemMenuUp cookies, 0] w6;
            (_, w8) = os_call env queue_addElement [gButtonCookie_SystemMenuDown cookies, 0] w7
        in obind (Some (addQueueCallbacks env w8))
             (\<lambda>_ w9.
                let (_, w10) = os_call env queue_start [] w9 in
                obind (host_run_loop env w10)
                  (\<lambda>_ w11.
                     let (_, w12) = os_call env queue_stop [] w11;
                         (_, w13) = os_call env queue_dispose [] w12;
                         (_, w14) = os_call env queue_Release [] w13
                     in Some (Return () w14))))"

definition doRun :: "os_env \<Rightarrow> cookie_struct \<Rightarrow> world \<Rightarrow> unit outcome option" where
  "doRun env cookies w =
     (let (ioReturnValue, w1) = os_call env hid_open [0] w in
      obind (processQueue env cookies w1)
        (\<lambda>_ w2.
           let w3 = (if ioReturnValue = KERN_SUCCESS then snd (os_call env hid_close [] w2) else w2);
               (_, w4) = os_call env hid_Release [] w3
           in Some (Return () w4)))"

subsection \<open>getHIDCookies, lines 286-365\<close>

definition CFDictionaryGetValue :: "CFDictionary \<Rightarrow> string \<Rightarrow> CFType option" where
  "CFDictionaryGetValue d k = map_of d k"

text \<open>
  The three tests made on each looked-up object: it is there, it is a number, and
  \<^verbatim>\<open>CFNumberGetValue\<close> converts it. \<open>None\<close> is the \<^verbatim>\<open>continue\<close>.
\<close>
definition number_of_object :: "CFType option \<Rightarrow> long option" where
  "number_of_object object =
     (case object of None \<Rightarrow> None | Some CFOther \<Rightarrow> None | Some (CFNumber r) \<Rightarrow> r)"

definition getHIDCookies_element ::
    "CFDictionary \<Rightarrow> cookie_struct \<times> world \<Rightarrow> cookie_struct \<times> world" where
  "getHIDCookies_element element cw =
     (case number_of_object (CFDictionaryGetValue element kIOHIDElementCookieKey) of
        None \<Rightarrow> cw
      | Some number \<Rightarrow>
          let cookie = (word_of_int number :: IOHIDElementCookie) in
          (case number_of_object (CFDictionaryGetValue element kIOHIDElementUsageKey) of
             None \<Rightarrow> cw
           | Some usage \<Rightarrow>
               (case number_of_object (CFDictionaryGetValue element kIOHIDElementUsagePageKey) of
                  None \<Rightarrow> cw
                | Some usagePage \<Rightarrow>
                    let (cookies, w) = cw in
                    if usagePage = kHIDPage_GenericDesktop then
                      if usage = kHIDUsage_GD_SystemAppMenu then
                        (cookies\<lparr>gButtonCookie_SystemAppMenu := cookie\<rparr>, w)
                      else if usage = kHIDUsage_GD_SystemMenu then
                        (cookies\<lparr>gButtonCookie_SystemMenuSelect := cookie\<rparr>, w)
                      else if usage = kHIDUsage_GD_SystemMenuRight then
                        (cookies\<lparr>gButtonCookie_SystemMenuRight := cookie\<rparr>, w\<lparr>buttonNextID := cookie\<rparr>)
                      else if usage = kHIDUsage_GD_SystemMenuLeft then
                        (cookies\<lparr>gButtonCookie_SystemMenuLeft := cookie\<rparr>, w\<lparr>buttonPreviousID := cookie\<rparr>)
                      else if usage = kHIDUsage_GD_SystemMenuUp then
                        (cookies\<lparr>gButtonCookie_SystemMenuUp := cookie\<rparr>, w)
                      else if usage = kHIDUsage_GD_SystemMenuDown then
                        (cookies\<lparr>gButtonCookie_SystemMenuDown := cookie\<rparr>, w)
                      else cw
                    else cw)))"

text \<open>The \<^verbatim>\<open>for\<close> loop over the array of elements, from index 0 upwards.\<close>
fun getHIDCookies_loop ::
    "CFDictionary list \<Rightarrow> cookie_struct \<times> world \<Rightarrow> cookie_struct \<times> world" where
  "getHIDCookies_loop [] cw = cw"
| "getHIDCookies_loop (element # elements) cw =
     getHIDCookies_loop elements (getHIDCookies_element element cw)"

text \<open>The record after \<^verbatim>\<open>memset(cookies, 0, sizeof(*cookies))\<close>.\<close>
definition zero_cookies :: cookie_struct where
  "zero_cookies =
     \<lparr>gButtonCookie_SystemAppMenu = 0, gButtonCookie_SystemMenuSelect = 0,
      gButtonCookie_SystemMenuRight = 0, gButtonCookie_SystemMenuLeft = 0,
      gButtonCookie_SystemMenuUp = 0, gButtonCookie_SystemMenuDown = 0\<rparr>"

definition getHIDCookies :: "os_env \<Rightarrow> interface_ptr \<Rightarrow> world \<Rightarrow> cookie_struct outcome" where
  "getHIDCookies env handle w =
     (let (p, w1) = os_call env malloc [] w in
      if p = 0 then Exit 1 (fprintf_stderr (''Failed to allocate cookie memory.'' @ [newline]) w1)
      else
        let cookies = zero_cookies in
        if handle = NULL \<or> handle = Interface False then Return cookies w1
        else
          let (result, w2) = os_call env hid_copyMatchingElements [] w1 in
          if result \<noteq> kIOReturnSuccess then
            Exit 1 (fprintf_stderr (''Failed to copy cookies.'' @ [newline]) w2)
          else
            (case getHIDCookies_loop (os_elements env) (cookies, w2) of
               (cookies', w3) \<Rightarrow> Return cookies' w3))"

subsection \<open>createHIDDeviceInterface, lines 367-398\<close>

text \<open>
  The third argument is the value of \<^verbatim>\<open>*hdi\<close> at the call, the result its value at the
  return: \<^verbatim>\<open>QueryInterface\<close> stores \<open>os_hdi env\<close> there.
\<close>
definition createHIDDeviceInterface ::
    "os_env \<Rightarrow> 32 word \<Rightarrow> interface_ptr \<Rightarrow> world \<Rightarrow> interface_ptr outcome" where
  "createHIDDeviceInterface env hidDevice hdi w =
     (let (ioReturnValue, w1) = os_call env IOObjectGetClass [hidDevice] w in
      bind (print_errmsg_if_io_err env ioReturnValue ''Failed to get class name.'' w1)
        (\<lambda>_ w2.
           let (ioReturnValue, w3) = os_call env IOCreatePlugInInterfaceForService [hidDevice] w2 in
           if ioReturnValue \<noteq> kIOReturnSuccess then Return hdi w3
           else
             let (plugInResult, w4) = os_call env plugIn_QueryInterface [] w3 in
             bind (print_errmsg_if_err (plugInResult \<noteq> S_OK)
                     (''Failed to create device interface.'' @ [newline]) w4)
               (\<lambda>_ w5. let (_, w6) = os_call env plugIn_Release [] w5 in Return (os_hdi env) w6)))"

subsection \<open>setupAndRun and main, lines 400-466\<close>

definition setupAndRun :: "os_env \<Rightarrow> world \<Rightarrow> unit outcome option" where
  "setupAndRun env w =
     (let (_, w1) = os_call env IOServiceNameMatching [] w;
          (hidService, w2) = os_call env IOServiceGetMatchingService [] w1
      in if hidService = 0 then
           Some (Exit 1 (fprintf_stderr (''Apple Infrared Remote not found.'' @ [newline]) w2))
         else
           let hidDevice = hidService in
           obind (Some (createHIDDeviceInterface env hidDevice NULL w2))
             (\<lambda>hidDeviceInterface w3.
                obind (Some (getHIDCookies env hidDeviceInterface w3))
                  (\<lambda>cookies w4.
                     let (ioReturnValue, w5) = os_call env IOObjectRelease [hidDevice] w4 in
                     obind (Some (print_errmsg_if_io_err env ioReturnValue
                                    ''Failed to release HID.'' w5))
                       (\<lambda>_ w6.
                          if hidDeviceInterface = NULL then
                            Some (Exit 1 (fprintf_stderr (''No HID.'' @ [newline]) w6))
                          else if hidDeviceInterface = Interface False then
                            Some (Fault w6)   \<comment> \<open>the call through \<^verbatim>\<open>*hidDeviceInterface\<close>\<close>
                          else
                            let (ioReturnValue, w7) = os_call env hid_open [0] w6 in
                            obind (doRun env cookies w7)
                              (\<lambda>_ w8.
                                 let w9 = (if ioReturnValue = KERN_SUCCESS
                                           then snd (os_call env hid_close [] w8) else w8);
                                     (_, w10) = os_call env hid_Release [] w9
                                 in Some (Return () w10))))))"

definition usage :: "world \<Rightarrow> world" where
  "usage w =
     printf (''Please report bugs using the following contact information:'' @ [newline]
             @ ''<URL:http://www.osxbook.com/software/bugs/>'' @ [newline])
    (printf (''  -k, --keynote use forward/backward button presses for Keynote slide transition''
             @ [newline, newline])
    (printf (''  -h, --help    print this help message and exit'' @ [newline])
    (printf (''Usage: iremoted [OPTIONS...]'' @ [newline, newline] @ ''Options:'' @ [newline])
    (printf (''Displays events received from the Apple Infrared Remote.'' @ [newline])
    (printf (''Copyright (c) 2006-2008 Amit Singh. All Rights Reserved.'' @ [newline])
    (printf (''iremoted (version 2.0)'' @ [newline]) w))))))"

text \<open>
  The option loop of \<open>main\<close>. The list holds what the successive calls of \<^verbatim>\<open>getopt_long\<close>
  return before it returns -1.
\<close>
fun main_options :: "char list \<Rightarrow> world \<Rightarrow> unit outcome" where
  "main_options [] w = Return () w"
| "main_options (c # cs) w =
     (if c = CHR ''h'' then Exit 0 (usage w)
      else if c = CHR ''k'' then main_options cs (w\<lparr>driveKeynote := 1\<rparr>)
      else Exit 1 (usage w))"

definition main :: "os_env \<Rightarrow> char list \<Rightarrow> world \<Rightarrow> int outcome option" where
  "main env opts w =
     obind (Some (main_options opts w))
       (\<lambda>_ w1. obind (setupAndRun env w1) (\<lambda>_ w2. Some (Return 0 w2)))"

text \<open>The state in which \<open>main\<close> starts: nothing printed, the variables as initialised.\<close>
definition initial_world :: world where
  "initial_world =
     \<lparr>stdout = [], stderr = [], trace = [], buttonNextID = 0, buttonPreviousID = 0,
      driveKeynote = 0\<rparr>"

section \<open>Notions used in the statements\<close>

subsection \<open>Observing a run\<close>

text \<open>
  The slide actions requested so far: the event identifiers of the calls of
  \<^verbatim>\<open>AEBuildAppleEvent\<close>, with which every call of \<open>KeynoteChangeSlide\<close> begins.
\<close>
definition keynote_requests :: "os_call list \<Rightarrow> AEEventID list" where
  "keynote_requests tr = map (\<lambda>c. snd c ! 1) (filter (\<lambda>c. fst c = AEBuildAppleEvent) tr)"

text \<open>What the next call of \<^verbatim>\<open>getNextEvent\<close> returns and the event it stores.\<close>
definition next_ret :: "os_env \<Rightarrow> world \<Rightarrow> HRESULT" where
  "next_ret env w = os_ret env queue_getNextEvent (calls queue_getNextEvent (trace w))"

definition next_event :: "os_env \<Rightarrow> world \<Rightarrow> IOHIDEventStruct" where
  "next_event env w = os_event env (calls queue_getNextEvent (trace w))"

text \<open>The state after \<open>n\<close> passes through the body of the loop of the callback.\<close>
fun passes :: "os_env \<Rightarrow> nat \<Rightarrow> world \<Rightarrow> world" where
  "passes env 0 w = w"
| "passes env (Suc n) w = passes env n (world_of (QueueCallback_body env w))"

text \<open>The two variables of lines 60-61.\<close>
definition globals :: "world \<Rightarrow> IOHIDElementCookie \<times> IOHIDElementCookie" where
  "globals w = (buttonNextID w, buttonPreviousID w)"

text \<open>
  The status with which the process ends, when it ends by \<^verbatim>\<open>exit\<close> or by returning from
  \<open>main\<close>.
\<close>
fun exit_status :: "int outcome \<Rightarrow> int option" where
  "exit_status (Return c w) = Some c"
| "exit_status (Exit c w) = Some c"
| "exit_status (Fault w) = None"

subsection \<open>Reading a hexadecimal numeral\<close>

definition hex_digit_value :: "char \<Rightarrow> nat" where
  "hex_digit_value c = length (takeWhile (\<lambda>d. d \<noteq> c) ''0123456789abcdef'')"

definition read_hex_digits :: "string \<Rightarrow> nat" where
  "read_hex_digits s = foldl (\<lambda>a c. 16 * a + hex_digit_value c) 0 s"

text \<open>A numeral as C reads it: the prefix \<^verbatim>\<open>0x\<close> may be there.\<close>
definition read_hex :: "string \<Rightarrow> nat" where
  "read_hex s = (if take 2 s = ''0x'' then read_hex_digits (drop 2 s) else read_hex_digits s)"

subsection \<open>The elements of the device\<close>

text \<open>
  The usage and the cookie of an element on the Generic Desktop page whose three entries
  are numbers: the elements the loop of \<open>getHIDCookies\<close> can act on.
\<close>
definition element_entry :: "CFDictionary \<Rightarrow> (long \<times> IOHIDElementCookie) option" where
  "element_entry element =
     (case number_of_object (CFDictionaryGetValue element kIOHIDElementCookieKey) of
        None \<Rightarrow> None
      | Some number \<Rightarrow>
          (case number_of_object (CFDictionaryGetValue element kIOHIDElementUsageKey) of
             None \<Rightarrow> None
           | Some u \<Rightarrow>
               if number_of_object (CFDictionaryGetValue element kIOHIDElementUsagePageKey)
                    = Some kHIDPage_GenericDesktop
               then Some (u, word_of_int number) else None))"

definition entry_for :: "long \<Rightarrow> CFDictionary \<Rightarrow> IOHIDElementCookie option" where
  "entry_for u element =
     (case element_entry element of None \<Rightarrow> None | Some (u', c) \<Rightarrow> if u' = u then Some c else None)"

text \<open>The cookie of the last element of the array with the usage \<open>u\<close>.\<close>
fun last_match :: "long \<Rightarrow> CFDictionary list \<Rightarrow> IOHIDElementCookie option" where
  "last_match u [] = None"
| "last_match u (element # elements) =
     (case last_match u elements of
        Some c \<Rightarrow> Some c
      | None \<Rightarrow>
          (case element_entry element of
             None \<Rightarrow> None
           | Some (u', c) \<Rightarrow> if u' = u then Some c else None))"

definition pick :: "IOHIDElementCookie option \<Rightarrow> IOHIDElementCookie \<Rightarrow> IOHIDElementCookie" where
  "pick m d = (case m of None \<Rightarrow> d | Some c \<Rightarrow> c)"

text \<open>The array has an element with usage page Generic Desktop and the usage \<open>u\<close>.\<close>
definition element_found :: "long \<Rightarrow> CFDictionary list \<Rightarrow> bool" where
  "element_found u elements =
     list_ex (\<lambda>element.
        number_of_object (CFDictionaryGetValue element kIOHIDElementUsagePageKey)
          = Some kHIDPage_GenericDesktop
        \<and> number_of_object (CFDictionaryGetValue element kIOHIDElementUsageKey) = Some u) elements"

subsection \<open>A concrete remote control\<close>

text \<open>\<^verbatim>\<open>kIOReturnUnderrun\<close>, what \<^verbatim>\<open>getNextEvent\<close> returns on an empty queue.\<close>
definition kIOReturnUnderrun :: IOReturn where "kIOReturnUnderrun = 0xE00002E7"

text \<open>
  An environment in which every call succeeds. The device has six elements, four of them
  buttons the program knows, two with the same usage; the queue holds a press and a release
  of the right button, and the run loop fires the event source once and returns.
\<close>
definition env_remote :: os_env where
  "env_remote =
     \<lparr>os_ret = (\<lambda>f k.
         if f = malloc \<or> f = IOServiceGetMatchingService \<or> f = hid_allocQueue then 0x1000
         else if f = queue_getNextEvent \<and> 2 \<le> k then kIOReturnUnderrun
         else 0),
      os_event = (\<lambda>k. \<lparr>elementCookie = 0x15, event_value = (if k = 0 then 1 else 0)\<rparr>),
      os_elements =
        [[(''ElementCookie'', CFNumber (Some 0x12)), (''Usage'', CFNumber (Some 0x86)),
          (''UsagePage'', CFNumber (Some 0x01))],
         [(''ElementCookie'', CFNumber (Some 0x14)), (''Usage'', CFNumber (Some 0x8B)),
          (''UsagePage'', CFNumber (Some 0x01))],
         [(''ElementCookie'', CFNumber (Some 0x15)), (''Usage'', CFNumber (Some 0x8A)),
          (''UsagePage'', CFNumber (Some 0x01))],
         [(''ElementCookie'', CFNumber (Some 0x16)), (''Usage'', CFNumber (Some 0x8B)),
          (''UsagePage'', CFNumber (Some 0x01))],
         [(''ElementCookie'', CFNumber (Some 0x23)), (''Usage'', CFNumber (Some 0x8A)),
          (''UsagePage'', CFNumber (Some 0x0C))],
         [(''ElementCookie'', CFOther), (''Usage'', CFNumber (Some 0x8C)),
          (''UsagePage'', CFNumber (Some 0x01))]],
      os_hdi = Interface True,
      os_mach_error_string = (\<lambda>_. ''(iokit/common) general error''),
      runloop_wakeups = 1,
      runloop_returns = True\<rparr>"

text \<open>What \<open>getHIDCookies\<close> returns for that device.\<close>
definition remote_cookies :: cookie_struct where
  "remote_cookies =
     \<lparr>gButtonCookie_SystemAppMenu = 0x12, gButtonCookie_SystemMenuSelect = 0,
      gButtonCookie_SystemMenuRight = 0x15, gButtonCookie_SystemMenuLeft = 0x16,
      gButtonCookie_SystemMenuUp = 0, gButtonCookie_SystemMenuDown = 0\<rparr>"

text \<open>
  The variables as they are when the callback runs for that device and the program was
  started with \<^verbatim>\<open>-k\<close>.
\<close>
definition remote_world :: world where
  "remote_world =
     initial_world\<lparr>buttonNextID := 0x15, buttonPreviousID := 0x16, driveKeynote := 1\<rparr>"

text \<open>
  A device none of whose elements was resolved, so that both cached identifiers are still 0,
  and a queue that holds presses of an element with cookie 0.
\<close>
definition env_unresolved :: os_env where
  "env_unresolved =
     env_remote\<lparr>os_elements := [],
        os_event := (\<lambda>k. \<lparr>elementCookie = 0, event_value = 1\<rparr>)\<rparr>"

definition unresolved_world :: world where
  "unresolved_world = initial_world\<lparr>driveKeynote := 1\<rparr>"

text \<open>Two Carbon error codes, and environments in which the Apple event calls fail.\<close>
definition procNotFound :: OSStatus where "procNotFound = - 600"
definition paramErr :: OSStatus where "paramErr = - 50"

definition env_build_fails :: os_env where
  "env_build_fails =
     env_remote\<lparr>os_ret := (\<lambda>f k. if f = AEBuildAppleEvent then paramErr else os_ret env_remote f k)\<rparr>"

definition env_send_fails :: os_env where
  "env_send_fails =
     env_remote\<lparr>os_ret := (\<lambda>f k. if f = AESend then procNotFound else os_ret env_remote f k)\<rparr>"

text \<open>Environments in which one step of the setup fails.\<close>
definition kIOReturnError :: IOReturn where "kIOReturnError = 0xE00002BC"

definition env_no_device :: os_env where
  "env_no_device =
     env_remote\<lparr>os_ret := (\<lambda>f k. if f = IOServiceGetMatchingService then 0 else os_ret env_remote f k)\<rparr>"

definition env_no_class :: os_env where
  "env_no_class =
     env_remote\<lparr>os_ret := (\<lambda>f k. if f = IOObjectGetClass then kIOReturnError
                               else os_ret env_remote f k)\<rparr>"

text \<open>\<^verbatim>\<open>E_NOINTERFACE\<close>, a status with which \<^verbatim>\<open>QueryInterface\<close> fails.\<close>
definition E_NOINTERFACE :: HRESULT where "E_NOINTERFACE = 0x80000004"

definition env_no_query :: os_env where
  "env_no_query =
     env_remote\<lparr>os_ret := (\<lambda>f k. if f = plugIn_QueryInterface then E_NOINTERFACE
                               else os_ret env_remote f k)\<rparr>"

definition env_no_interface :: os_env where
  "env_no_interface =
     env_remote\<lparr>os_ret := (\<lambda>f k. if f = IOCreatePlugInInterfaceForService then kIOReturnError
                               else os_ret env_remote f k)\<rparr>"

definition env_no_queue :: os_env where
  "env_no_queue =
     env_remote\<lparr>os_ret := (\<lambda>f k. if f = hid_allocQueue then 0 else os_ret env_remote f k)\<rparr>"

section \<open>Lemmas\<close>

subsection \<open>Traces\<close>

lemma calls_Nil [simp]: "calls f [] = 0"
  by (simp add: calls_def)

lemma calls_append [simp]: "calls f (tr @ tr') = calls f tr + calls f tr'"
  by (simp add: calls_def)

lemma calls_Cons [simp]: "calls f ((g, a) # tr) = (if g = f then Suc (calls f tr) else calls f tr)"
  by (simp add: calls_def)

lemma os_call_eq:
  "os_call env f args w = (os_ret env f (calls f (trace w)), w\<lparr>trace := trace w @ [(f, args)]\<rparr>)"
  by (simp add: os_call_def)

lemma keynote_requests_Nil [simp]: "keynote_requests [] = []"
  by (simp add: keynote_requests_def)

lemma keynote_requests_Cons [simp]:
  "keynote_requests ((g, a) # tr) =
     (if g = AEBuildAppleEvent then (a ! 1) # keynote_requests tr else keynote_requests tr)"
  by (simp add: keynote_requests_def)

lemma keynote_requests_append [simp]:
  "keynote_requests (tr @ tr') = keynote_requests tr @ keynote_requests tr'"
  by (simp add: keynote_requests_def)


lemma KeynoteChangeSlide_returns:
  "\<exists>err. KeynoteChangeSlide env e w = Return err (world_of (KeynoteChangeSlide env e w))"
  by (simp add: KeynoteChangeSlide_def os_call_eq Let_def)

lemma bind_KeynoteChangeSlide [simp]:
  "bind (KeynoteChangeSlide env e w) (\<lambda>_ w'. Return r w') =
     Return r (world_of (KeynoteChangeSlide env e w))"
  using KeynoteChangeSlide_returns [of env e w]
  by (cases "KeynoteChangeSlide env e w") (auto simp: bind_def)

lemma KeynoteChangeSlide_frame [simp]:
  "stdout (world_of (KeynoteChangeSlide env e w)) = stdout w"
  "buttonNextID (world_of (KeynoteChangeSlide env e w)) = buttonNextID w"
  "buttonPreviousID (world_of (KeynoteChangeSlide env e w)) = buttonPreviousID w"
  "driveKeynote (world_of (KeynoteChangeSlide env e w)) = driveKeynote w"
  "calls queue_getNextEvent (trace (world_of (KeynoteChangeSlide env e w))) =
     calls queue_getNextEvent (trace w)"
  "keynote_requests (trace (world_of (KeynoteChangeSlide env e w))) =
     keynote_requests (trace w) @ [e]"
  by (simp_all add: KeynoteChangeSlide_def os_call_eq fprintf_stderr_def Let_def)

lemma QueueCallback_body_returns:
  "QueueCallback_body env w = Return (next_ret env w) (world_of (QueueCallback_body env w))"
  by (simp add: QueueCallback_body_def os_call_eq Let_def next_ret_def)

lemma QueueCallback_body_frame [simp]:
  "buttonNextID (world_of (QueueCallback_body env w)) = buttonNextID w"
  "buttonPreviousID (world_of (QueueCallback_body env w)) = buttonPreviousID w"
  "driveKeynote (world_of (QueueCallback_body env w)) = driveKeynote w"
  "calls queue_getNextEvent (trace (world_of (QueueCallback_body env w))) =
     Suc (calls queue_getNextEvent (trace w))"
  by (simp_all add: QueueCallback_body_def os_call_eq Let_def printf_def)

lemma QueueCallback_body_stdout:
  "stdout (world_of (QueueCallback_body env w)) =
     stdout w @ (if next_ret env w = 0 then fmt_alt_lx (elementCookie (next_event env w)) @ '' ''
         @ (if event_value (next_event env w) = 0 then ''depressed'' else ''pressed'') @ [newline] else [])"
  by (simp add: QueueCallback_body_def os_call_eq Let_def printf_def next_ret_def next_event_def)

lemma QueueCallback_body_requests:
  "keynote_requests (trace (world_of (QueueCallback_body env w))) =
     keynote_requests (trace w) @
       (if next_ret env w = 0 \<and> event_value (next_event env w) \<noteq> 0 \<and> driveKeynote w \<noteq> 0 then
          if elementCookie (next_event env w) = buttonNextID w then [slideForward]
          else if elementCookie (next_event env w) = buttonPreviousID w then [slideBackward]
          else []
        else [])"
  by (simp add: QueueCallback_body_def os_call_eq Let_def printf_def next_ret_def next_event_def)

lemma passes_calls [simp]:
  "calls queue_getNextEvent (trace (passes env n w)) = calls queue_getNextEvent (trace w) + n"
  by (induction n arbitrary: w) simp_all

lemma passes_frame [simp]:
  "buttonNextID (passes env n w) = buttonNextID w"
  "buttonPreviousID (passes env n w) = buttonPreviousID w"
  "driveKeynote (passes env n w) = driveKeynote w"
  by (induction n arbitrary: w) simp_all

lemma QueueCallback_loop_nonzero: "ret \<noteq> 0 \<Longrightarrow> QueueCallback_loop env ret w = Some (Return () w)"
  by (simp add: QueueCallback_loop.simps)

lemma QueueCallback_loop_zero:
  "QueueCallback_loop env 0 w =
     QueueCallback_loop env (next_ret env w) (world_of (QueueCallback_body env w))"
  by (subst QueueCallback_loop.simps, subst QueueCallback_body_returns) simp

lemma QueueCallback_loop_terminates:
  assumes "\<forall>i<n. os_ret env queue_getNextEvent (calls queue_getNextEvent (trace w) + i) = 0"
      and "os_ret env queue_getNextEvent (calls queue_getNextEvent (trace w) + n) \<noteq> 0"
  shows "QueueCallback_loop env 0 w = Some (Return () (passes env (Suc n) w))"
  using assms
proof (induction n arbitrary: w)
  case 0
  then show ?case
    by (simp add: QueueCallback_loop_zero QueueCallback_loop_nonzero next_ret_def)
next
  case (Suc n)
  let ?w1 = "world_of (QueueCallback_body env w)"
  from Suc.prems(1) [rule_format, of 0] have r0: "next_ret env w = 0"
    by (simp add: next_ret_def)
  have "\<forall>i<n. os_ret env queue_getNextEvent (calls queue_getNextEvent (trace ?w1) + i) = 0"
    using Suc.prems(1) [rule_format, of "Suc i" for i] by simp
  moreover have "os_ret env queue_getNextEvent (calls queue_getNextEvent (trace ?w1) + n) \<noteq> 0"
    using Suc.prems(2) by simp
  ultimately have "QueueCallback_loop env 0 ?w1 = Some (Return () (passes env (Suc n) ?w1))"
    by (rule Suc.IH)
  then show ?case
    by (subst QueueCallback_loop_zero) (simp add: r0)
qed


lemma QueueCallback_loop_returned:
  assumes "QueueCallback_loop env ret w = Some r"
  shows "\<exists>m. r = Return () (passes env m w) \<and> (ret = 0 \<longrightarrow> 0 < m \<and>
           os_ret env queue_getNextEvent (calls queue_getNextEvent (trace w) + (m - 1)) \<noteq> 0
           \<and> (\<forall>i<m - 1. os_ret env queue_getNextEvent (calls queue_getNextEvent (trace w) + i) = 0))
          \<and> (ret \<noteq> 0 \<longrightarrow> m = 0)"
  using assms
proof (induction env ret w r rule: QueueCallback_loop.raw_induct [rotated 1, consumes 1])
  case (1 loop env ret w r)
  show ?case
  proof (cases "ret = 0")
    case False
    with 1(2) show ?thesis by (intro exI [of _ 0]) simp
  next
    case True
    let ?w1 = "world_of (QueueCallback_body env w)"
    from 1(2) True have "loop env (next_ret env w) ?w1 = Some r"
      by (subst (asm) QueueCallback_body_returns) simp
    from 1(1) [OF this] obtain m where m: "r = Return () (passes env m ?w1)"
      "next_ret env w = 0 \<longrightarrow> 0 < m \<and>
           os_ret env queue_getNextEvent (calls queue_getNextEvent (trace ?w1) + (m - 1)) \<noteq> 0
           \<and> (\<forall>i<m - 1. os_ret env queue_getNextEvent (calls queue_getNextEvent (trace ?w1) + i) = 0)"
      "next_ret env w \<noteq> 0 \<longrightarrow> m = 0"
      by blast
    show ?thesis
    proof (cases "next_ret env w = 0")
      case False
      with m True show ?thesis
        by (intro exI [of _ "Suc 0"]) (simp add: next_ret_def)
    next
      case z: True
      with m(2) have "0 < m" by simp
      then obtain j where j: "m = Suc j" by (cases m) auto
      from m(2) z j
      have mn: "os_ret env queue_getNextEvent (Suc (calls queue_getNextEvent (trace w) + j)) \<noteq> 0"
        and mz: "\<forall>i<j. os_ret env queue_getNextEvent (Suc (calls queue_getNextEvent (trace w) + i)) = 0"
        by simp_all
      have "\<forall>i<m. os_ret env queue_getNextEvent (calls queue_getNextEvent (trace w) + i) = 0"
      proof (intro allI impI)
        fix i assume "i < m"
        show "os_ret env queue_getNextEvent (calls queue_getNextEvent (trace w) + i) = 0"
        proof (cases i)
          case 0
          with z show ?thesis by (simp add: next_ret_def)
        next
          case (Suc i')
          with \<open>i < m\<close> j have "i' < j" by simp
          with mz Suc show ?thesis by simp
        qed
      qed
      moreover from mn j
      have "os_ret env queue_getNextEvent (calls queue_getNextEvent (trace w) + m) \<noteq> 0"
        by simp
      ultimately show ?thesis using m(1) True
        by (intro exI [of _ "Suc m"]) (simp add:)
    qed
  qed
qed

subsection \<open>The loop of getHIDCookies\<close>

lemmas usage_defs =
  kHIDUsage_GD_SystemAppMenu_def kHIDUsage_GD_SystemMenu_def
  kHIDUsage_GD_SystemMenuRight_def kHIDUsage_GD_SystemMenuLeft_def kHIDUsage_GD_SystemMenuUp_def
  kHIDUsage_GD_SystemMenuDown_def

lemma getHIDCookies_element_fields:
  "gButtonCookie_SystemAppMenu (fst (getHIDCookies_element e cw)) =
     pick (entry_for kHIDUsage_GD_SystemAppMenu e) (gButtonCookie_SystemAppMenu (fst cw))"
  "gButtonCookie_SystemMenuSelect (fst (getHIDCookies_element e cw)) =
     pick (entry_for kHIDUsage_GD_SystemMenu e) (gButtonCookie_SystemMenuSelect (fst cw))"
  "gButtonCookie_SystemMenuRight (fst (getHIDCookies_element e cw)) =
     pick (entry_for kHIDUsage_GD_SystemMenuRight e) (gButtonCookie_SystemMenuRight (fst cw))"
  "gButtonCookie_SystemMenuLeft (fst (getHIDCookies_element e cw)) =
     pick (entry_for kHIDUsage_GD_SystemMenuLeft e) (gButtonCookie_SystemMenuLeft (fst cw))"
  "gButtonCookie_SystemMenuUp (fst (getHIDCookies_element e cw)) =
     pick (entry_for kHIDUsage_GD_SystemMenuUp e) (gButtonCookie_SystemMenuUp (fst cw))"
  "gButtonCookie_SystemMenuDown (fst (getHIDCookies_element e cw)) =
     pick (entry_for kHIDUsage_GD_SystemMenuDown e) (gButtonCookie_SystemMenuDown (fst cw))"
  "buttonNextID (snd (getHIDCookies_element e cw)) =
     pick (entry_for kHIDUsage_GD_SystemMenuRight e) (buttonNextID (snd cw))"
  "buttonPreviousID (snd (getHIDCookies_element e cw)) =
     pick (entry_for kHIDUsage_GD_SystemMenuLeft e) (buttonPreviousID (snd cw))"
  "stdout (snd (getHIDCookies_element e cw)) = stdout (snd cw)"
  "stderr (snd (getHIDCookies_element e cw)) = stderr (snd cw)"
  "trace (snd (getHIDCookies_element e cw)) = trace (snd cw)"
  "driveKeynote (snd (getHIDCookies_element e cw)) = driveKeynote (snd cw)"
  by (cases cw; simp add: getHIDCookies_element_def element_entry_def entry_for_def pick_def
        usage_defs Let_def split: option.splits)+

lemma pick_last_match:
  "pick (last_match u (e # es)) d = pick (last_match u es) (pick (entry_for u e) d)"
  by (simp add: pick_def entry_for_def split: option.splits)

lemma getHIDCookies_loop_fields:
  "gButtonCookie_SystemAppMenu (fst (getHIDCookies_loop es cw)) =
     pick (last_match kHIDUsage_GD_SystemAppMenu es) (gButtonCookie_SystemAppMenu (fst cw))"
  "gButtonCookie_SystemMenuSelect (fst (getHIDCookies_loop es cw)) =
     pick (last_match kHIDUsage_GD_SystemMenu es) (gButtonCookie_SystemMenuSelect (fst cw))"
  "gButtonCookie_SystemMenuRight (fst (getHIDCookies_loop es cw)) =
     pick (last_match kHIDUsage_GD_SystemMenuRight es) (gButtonCookie_SystemMenuRight (fst cw))"
  "gButtonCookie_SystemMenuLeft (fst (getHIDCookies_loop es cw)) =
     pick (last_match kHIDUsage_GD_SystemMenuLeft es) (gButtonCookie_SystemMenuLeft (fst cw))"
  "gButtonCookie_SystemMenuUp (fst (getHIDCookies_loop es cw)) =
     pick (last_match kHIDUsage_GD_SystemMenuUp es) (gButtonCookie_SystemMenuUp (fst cw))"
  "gButtonCookie_SystemMenuDown (fst (getHIDCookies_loop es cw)) =
     pick (last_match kHIDUsage_GD_SystemMenuDown es) (gButtonCookie_SystemMenuDown (fst cw))"
  "buttonNextID (snd (getHIDCookies_loop es cw)) =
     pick (last_match kHIDUsage_GD_SystemMenuRight es) (buttonNextID (snd cw))"
  "buttonPreviousID (snd (getHIDCookies_loop es cw)) =
     pick (last_match kHIDUsage_GD_SystemMenuLeft es) (buttonPreviousID (snd cw))"
  "stdout (snd (getHIDCookies_loop es cw)) = stdout (snd cw)"
  "stderr (snd (getHIDCookies_loop es cw)) = stderr (snd cw)"
  "trace (snd (getHIDCookies_loop es cw)) = trace (snd cw)"
  "driveKeynote (snd (getHIDCookies_loop es cw)) = driveKeynote (snd cw)"
  by (induction es arbitrary: cw;
      simp add: getHIDCookies_element_fields pick_last_match del: last_match.simps(2);
      simp add: pick_def)+

lemma last_match_found: "last_match u es = Some c \<Longrightarrow> element_found u es"
  by (induction es)
     (auto simp: element_found_def element_entry_def split: option.splits if_splits)

lemmas key_defs = kIOHIDElementCookieKey_def kIOHIDElementUsageKey_def kIOHIDElementUsagePageKey_def

lemmas eval_cookies =
  getHIDCookies_def os_call_eq Let_def getHIDCookies_element_def number_of_object_def
  CFDictionaryGetValue_def key_defs kHIDPage_GenericDesktop_def usage_defs zero_cookies_def
  kIOReturnSuccess_def

lemma getHIDCookies_Return:
  assumes "getHIDCookies env handle w = Return cookies w'"
  shows "os_ret env malloc (calls malloc (trace w)) \<noteq> 0 \<and>
         (if handle = Interface True
          then cookies = fst (getHIDCookies_loop (os_elements env)
                 (zero_cookies, w\<lparr>trace := trace w @ [(malloc, []), (hid_copyMatchingElements, [])]\<rparr>))
             \<and> w' = snd (getHIDCookies_loop (os_elements env)
                 (zero_cookies, w\<lparr>trace := trace w @ [(malloc, []), (hid_copyMatchingElements, [])]\<rparr>))
          else cookies = zero_cookies \<and> w' = w\<lparr>trace := trace w @ [(malloc, [])]\<rparr>)"
  using assms
  by (cases handle) (auto simp: getHIDCookies_def os_call_eq Let_def split: if_splits prod.splits)

lemma pick_zero: "pick m 0 \<noteq> 0 \<Longrightarrow> \<exists>c. m = Some c"
  by (cases m) (simp_all add: pick_def)

subsection \<open>Hexadecimal numerals\<close>

lemma below_16:
  "d < 16 \<Longrightarrow> d \<in> {0, 1, 2, 3, 4, 5, 6, 7, 8, 9, 10, 11, 12, 13, 14, 15::nat}"
  by simp arith

lemma hex_digit_value_hex_digit: "d < 16 \<Longrightarrow> hex_digit_value (hex_digit d) = d"
proof -
  assume "d < 16"
  then have "d \<in> {0, 1, 2, 3, 4, 5, 6, 7, 8, 9, 10, 11, 12, 13, 14, 15}"
    by (rule below_16)
  then show ?thesis
    by (auto simp: hex_digit_value_def hex_digit_def)
qed

lemma hex_digit_not_newline: "d < 16 \<Longrightarrow> hex_digit d \<noteq> newline"
proof -
  assume "d < 16"
  then have "d \<in> {0, 1, 2, 3, 4, 5, 6, 7, 8, 9, 10, 11, 12, 13, 14, 15}"
    by (rule below_16)
  then show ?thesis
    by (auto simp: newline_def hex_digit_def)
qed

lemma read_hex_digits_snoc:
  "read_hex_digits (s @ [c]) = 16 * read_hex_digits s + hex_digit_value c"
  by (simp add: read_hex_digits_def)

lemma read_hex_digits_show_hex: "read_hex_digits (show_hex n) = n"
proof (induction n rule: show_hex.induct)
  case (1 n)
  show ?case
  proof (cases "n < 16")
    case True
    then show ?thesis
      by (subst show_hex.simps) (simp add: read_hex_digits_def hex_digit_value_hex_digit)
  next
    case False
    with 1 have "read_hex_digits (show_hex (n div 16)) = n div 16" by simp
    with False show ?thesis
      by (subst show_hex.simps) (simp add: read_hex_digits_snoc hex_digit_value_hex_digit)
  qed
qed

lemma newline_notin_show_hex: "newline \<notin> set (show_hex n)"
proof (induction n rule: show_hex.induct)
  case (1 n)
  show ?case
  proof (cases "n < 16")
    case True
    then show ?thesis
      using hex_digit_not_newline [of n] by (subst show_hex.simps) auto
  next
    case False
    with 1 have "newline \<notin> set (show_hex (n div 16))" by simp
    with False show ?thesis
      using hex_digit_not_newline [of "n mod 16"] by (subst show_hex.simps) auto
  qed
qed

lemma show_hex_not_Nil: "show_hex n \<noteq> []"
  by (subst show_hex.simps) simp

lemma show_hex_no_x: "CHR ''x'' \<notin> set (show_hex n)"
proof (induction n rule: show_hex.induct)
  case (1 n)
  have d: "hex_digit d \<noteq> CHR ''x''" if "d < 16" for d
  proof -
    from that have "d \<in> {0, 1, 2, 3, 4, 5, 6, 7, 8, 9, 10, 11, 12, 13, 14, 15}"
      by (rule below_16)
    then show ?thesis by (auto simp: hex_digit_def)
  qed
  show ?case
  proof (cases "n < 16")
    case True
    then show ?thesis using d [of n] by (subst show_hex.simps) auto
  next
    case False
    with 1 have "CHR ''x'' \<notin> set (show_hex (n div 16))" by simp
    with False show ?thesis using d [of "n mod 16"] by (subst show_hex.simps) auto
  qed
qed

lemma read_hex_fmt_alt_lx: "read_hex (fmt_alt_lx x) = unat x"
proof (cases "x = 0")
  case True
  then show ?thesis
    by (simp add: fmt_alt_lx_def read_hex_def read_hex_digits_def hex_digit_value_def)
next
  case False
  then show ?thesis
    by (simp add: fmt_alt_lx_def read_hex_def read_hex_digits_show_hex)
qed

lemma newline_notin_fmt_alt_lx: "newline \<notin> set (fmt_alt_lx x)"
  using newline_notin_show_hex [of "unat x"] by (auto simp: fmt_alt_lx_def newline_def)

subsection \<open>The passes of the callback loop\<close>

lemma passes_snoc: "passes env (Suc n) w = world_of (QueueCallback_body env (passes env n w))"
  by (induction n arbitrary: w) simp_all

lemma QueueCallbackFunction_terminates:
  assumes "\<forall>i<n. os_ret env queue_getNextEvent (calls queue_getNextEvent (trace w) + i) = 0"
      and "os_ret env queue_getNextEvent (calls queue_getNextEvent (trace w) + n) \<noteq> 0"
  shows "QueueCallbackFunction env w = Some (Return () (passes env (Suc n) w))"
  unfolding QueueCallbackFunction_def using assms by (rule QueueCallback_loop_terminates)

lemma passes_stdout_events:
  assumes "\<forall>i<n. os_ret env queue_getNextEvent (calls queue_getNextEvent (trace w) + i) = 0"
  shows "stdout (passes env n w) = stdout w @ concat (map (\<lambda>i.
              fmt_alt_lx (elementCookie (os_event env (calls queue_getNextEvent (trace w) + i)))
              @ '' ''
              @ (if event_value (os_event env (calls queue_getNextEvent (trace w) + i)) = 0
                 then ''depressed'' else ''pressed'')
              @ [newline]) [0..<n])"
  using assms
proof (induction n)
  case 0
  show ?case by simp
next
  case (Suc n)
  then have "stdout (passes env n w) = stdout w @ concat (map (\<lambda>i.
              fmt_alt_lx (elementCookie (os_event env (calls queue_getNextEvent (trace w) + i)))
              @ '' ''
              @ (if event_value (os_event env (calls queue_getNextEvent (trace w) + i)) = 0
                 then ''depressed'' else ''pressed'')
              @ [newline]) [0..<n])"
    by simp
  moreover from Suc.prems have "next_ret env (passes env n w) = 0"
    by (simp add: next_ret_def)
  ultimately show ?case
    by (simp add: passes_snoc QueueCallback_body_stdout next_event_def del: passes.simps)
qed

lemma passes_stdout_last:
  assumes "os_ret env queue_getNextEvent (calls queue_getNextEvent (trace w) + n) \<noteq> 0"
  shows "stdout (passes env (Suc n) w) = stdout (passes env n w)"
  using assms by (simp add: passes_snoc QueueCallback_body_stdout next_ret_def del: passes.simps)

lemma passes_requests_events:
  assumes "\<forall>i<n. os_ret env queue_getNextEvent (calls queue_getNextEvent (trace w) + i) = 0"
  shows "keynote_requests (trace (passes env n w)) = keynote_requests (trace w) @ concat (map (\<lambda>i.
              if event_value (os_event env (calls queue_getNextEvent (trace w) + i)) \<noteq> 0
                 \<and> driveKeynote w \<noteq> 0
              then if elementCookie (os_event env (calls queue_getNextEvent (trace w) + i))
                        = buttonNextID w then [slideForward]
                   else if elementCookie (os_event env (calls queue_getNextEvent (trace w) + i))
                        = buttonPreviousID w then [slideBackward]
                   else []
              else []) [0..<n])"
  using assms
proof (induction n)
  case 0
  show ?case by simp
next
  case (Suc n)
  then have "keynote_requests (trace (passes env n w)) = keynote_requests (trace w) @ concat (map (\<lambda>i.
              if event_value (os_event env (calls queue_getNextEvent (trace w) + i)) \<noteq> 0
                 \<and> driveKeynote w \<noteq> 0
              then if elementCookie (os_event env (calls queue_getNextEvent (trace w) + i))
                        = buttonNextID w then [slideForward]
                   else if elementCookie (os_event env (calls queue_getNextEvent (trace w) + i))
                        = buttonPreviousID w then [slideBackward]
                   else []
              else []) [0..<n])"
    by simp
  moreover from Suc.prems have "next_ret env (passes env n w) = 0"
    by (simp add: next_ret_def)
  ultimately show ?case
    by (simp add: passes_snoc QueueCallback_body_requests next_event_def del: passes.simps)
qed

lemma passes_requests_last:
  assumes "os_ret env queue_getNextEvent (calls queue_getNextEvent (trace w) + n) \<noteq> 0"
  shows "keynote_requests (trace (passes env (Suc n) w)) = keynote_requests (trace (passes env n w))"
  using assms by (simp add: passes_snoc QueueCallback_body_requests next_ret_def del: passes.simps)

lemma QueueCallbackFunction_returns_iff:
  "QueueCallbackFunction env w \<noteq> None \<longleftrightarrow>
     (\<exists>n. os_ret env queue_getNextEvent (calls queue_getNextEvent (trace w) + n) \<noteq> 0)"
proof
  assume "QueueCallbackFunction env w \<noteq> None"
  then obtain r where "QueueCallback_loop env 0 w = Some r"
    by (auto simp: QueueCallbackFunction_def)
  from QueueCallback_loop_returned [OF this]
  obtain m where "os_ret env queue_getNextEvent (calls queue_getNextEvent (trace w) + (m - 1)) \<noteq> 0"
    by auto
  then show "\<exists>n. os_ret env queue_getNextEvent (calls queue_getNextEvent (trace w) + n) \<noteq> 0" ..
next
  let ?P = "\<lambda>n. os_ret env queue_getNextEvent (calls queue_getNextEvent (trace w) + n) \<noteq> 0"
  assume "\<exists>n. ?P n"
  then have "?P (LEAST n. ?P n)" by (rule LeastI_ex)
  moreover have "\<forall>i<LEAST n. ?P n.
      os_ret env queue_getNextEvent (calls queue_getNextEvent (trace w) + i) = 0"
    using not_less_Least [of _ ?P] by blast
  ultimately have "QueueCallbackFunction env w = Some (Return () (passes env (Suc (LEAST n. ?P n)) w))"
    by (intro QueueCallbackFunction_terminates)
  then show "QueueCallbackFunction env w \<noteq> None" by simp
qed

lemma slide_distinct: "slideForward \<noteq> slideBackward"
  by (simp add: slideForward_def slideBackward_def)

lemmas eval_remote = env_remote_def remote_world_def initial_world_def kIOReturnUnderrun_def

subsection \<open>What leaves the two variables alone\<close>

lemma globals_updates [simp]:
  "globals (w\<lparr>trace := t\<rparr>) = globals w"
  "globals (w\<lparr>stdout := s\<rparr>) = globals w"
  "globals (w\<lparr>stderr := s\<rparr>) = globals w"
  "globals (w\<lparr>driveKeynote := d\<rparr>) = globals w"
  by (simp_all add: globals_def)

lemma globals_os_call [simp]: "globals (snd (os_call env f args w)) = globals w"
  by (simp add: os_call_eq)

lemma globals_passes [simp]: "globals (passes env n w) = globals w"
  by (simp add: globals_def del: passes.simps)

lemma globals_KeynoteChangeSlide [simp]:
  "globals (world_of (KeynoteChangeSlide env e w)) = globals w"
  by (simp add: globals_def)

lemma globals_QueueCallback_body [simp]:
  "globals (world_of (QueueCallback_body env w)) = globals w"
  by (simp add: globals_def)

lemma QueueCallbackFunction_Some:
  assumes "QueueCallbackFunction env w = Some r"
  shows "\<exists>m. r = Return () (passes env m w)"
  using QueueCallback_loop_returned [of env 0 w r] assms
  by (auto simp: QueueCallbackFunction_def)

lemma globals_QueueCallbackFunction:
  "QueueCallbackFunction env w = Some r \<Longrightarrow> globals (world_of r) = globals w"
  by (auto dest!: QueueCallbackFunction_Some)

lemma obind_Some:
  "obind m f = Some r \<longleftrightarrow>
     (\<exists>x w. m = Some (Return x w) \<and> f x w = Some r)
     \<or> (\<exists>c w. m = Some (Exit c w) \<and> r = Exit c w)
     \<or> (\<exists>w. m = Some (Fault w) \<and> r = Fault w)"
  by (auto simp: obind_def split: option.splits outcome.splits)

lemma globals_run_callbacks:
  "run_callbacks env n w = Some r \<Longrightarrow> globals (world_of r) = globals w"
proof (induction n arbitrary: w)
  case 0
  then show ?case by auto
next
  case (Suc n)
  then show ?case
    by (auto simp: obind_Some dest!: globals_QueueCallbackFunction)
qed

lemma globals_host_run_loop:
  "host_run_loop env w = Some r \<Longrightarrow> globals (world_of r) = globals w"
  by (auto simp: host_run_loop_def os_call_eq Let_def obind_Some
           split: if_splits dest!: globals_run_callbacks)

lemma globals_addQueueCallbacks [simp]:
  "globals (world_of (addQueueCallbacks env w)) = globals w"
  by (simp add: addQueueCallbacks_def os_call_eq Let_def)

lemma world_of_eq: "m = Return x w \<Longrightarrow> w = world_of m"
  "m = Exit c w \<Longrightarrow> w = world_of m" "m = Fault w \<Longrightarrow> w = world_of m"
  by simp_all

lemma globals_processQueue:
  assumes "processQueue env cookies w = Some r"
  shows "globals (world_of r) = globals w"
proof (cases "os_ret env hid_allocQueue (calls hid_allocQueue (trace w)) = 0")
  case True
  with assms show ?thesis
    by (auto simp: processQueue_def os_call_eq fprintf_stderr_def)
next
  case False
  let ?w8 = "w\<lparr>trace := trace w @
       [(hid_allocQueue, []), (queue_create, [0, 8]),
        (queue_addElement, [gButtonCookie_SystemAppMenu cookies, 0]),
        (queue_addElement, [gButtonCookie_SystemMenuSelect cookies, 0]),
        (queue_addElement, [gButtonCookie_SystemMenuRight cookies, 0]),
        (queue_addElement, [gButtonCookie_SystemMenuLeft cookies, 0]),
        (queue_addElement, [gButtonCookie_SystemMenuUp cookies, 0]),
        (queue_addElement, [gButtonCookie_SystemMenuDown cookies, 0])]\<rparr>"
  have g: "globals (world_of (addQueueCallbacks env ?w8)) = globals w"
    by simp
  from assms False
  have "obind (Some (addQueueCallbacks env ?w8))
          (\<lambda>_ w9. obind (host_run_loop env (w9\<lparr>trace := trace w9 @ [(queue_start, [])]\<rparr>))
             (\<lambda>_ w11. Some (Return () (w11\<lparr>trace := trace w11 @
                [(queue_stop, []), (queue_dispose, []), (queue_Release, [])]\<rparr>)))) = Some r"
    by (simp add: processQueue_def os_call_eq Let_def)
  then consider
      (run) b w9 u w11 where "addQueueCallbacks env ?w8 = Return b w9"
        "host_run_loop env (w9\<lparr>trace := trace w9 @ [(queue_start, [])]\<rparr>) = Some (Return u w11)"
        "r = Return () (w11\<lparr>trace := trace w11 @
                [(queue_stop, []), (queue_dispose, []), (queue_Release, [])]\<rparr>)"
    | (stop) b w9 where "addQueueCallbacks env ?w8 = Return b w9"
        "host_run_loop env (w9\<lparr>trace := trace w9 @ [(queue_start, [])]\<rparr>) = Some r"
        "\<not> (\<exists>u w11. r = Return u w11)"
    | (early) "world_of r = world_of (addQueueCallbacks env ?w8)"
    by (auto simp: obind_Some)
  then show ?thesis
  proof cases
    case run
    from run(2) have "globals w11 = globals w9"
      by (auto dest!: globals_host_run_loop)
    moreover from run(1) g have "globals w9 = globals w"
      by simp
    ultimately show ?thesis using run(3) by simp
  next
    case stop
    from stop(2) have "globals (world_of r) = globals w9"
      by (auto dest!: globals_host_run_loop)
    moreover from stop(1) g have "globals w9 = globals w"
      by simp
    ultimately show ?thesis by simp
  next
    case early
    with g show ?thesis by simp
  qed
qed

lemma globals_doRun:
  assumes "doRun env cookies w = Some r"
  shows "globals (world_of r) = globals w"
  using assms
  by (auto simp: doRun_def os_call_eq Let_def obind_Some split: if_splits
           dest!: globals_processQueue)

lemma globals_usage [simp]: "globals (usage w) = globals w"
  by (simp add: usage_def printf_def)

lemma globals_main_options [simp]: "globals (world_of (main_options opts w)) = globals w"
  by (induction opts arbitrary: w) simp_all

lemma globals_createHIDDeviceInterface [simp]:
  "globals (world_of (createHIDDeviceInterface env d h w)) = globals w"
  by (simp add: createHIDDeviceInterface_def os_call_eq Let_def bind_def
        print_errmsg_if_io_err_def print_errmsg_if_err_def fprintf_stderr_def)

lemma globals_eq:
  "globals a = globals b \<longleftrightarrow>
     buttonNextID a = buttonNextID b \<and> buttonPreviousID a = buttonPreviousID b"
  by (simp add: globals_def)

subsection \<open>Runs of the whole program\<close>

lemma passes_remote_trace:
  assumes "calls queue_getNextEvent (trace w) = 0" and "driveKeynote w \<noteq> 0"
      and "buttonNextID w = 0x15"
  shows "map fst (trace (passes env_remote 3 w)) =
           map fst (trace w) @
             [queue_getNextEvent, AEBuildAppleEvent, AESend, AEDisposeDesc, AEDisposeDesc,
              queue_getNextEvent, queue_getNextEvent]"
proof -
  have three: "3 = Suc (Suc (Suc 0))" by simp
  show ?thesis
    unfolding three passes.simps
    using assms
    by (simp add: QueueCallback_body_def KeynoteChangeSlide_def os_call_eq Let_def printf_def
          bind_def noErr_def fprintf_stderr_def env_remote_def kIOReturnUnderrun_def)
qed

lemma host_run_loop_remote:
  assumes "calls queue_getNextEvent (trace w) = 0" and "0 < calls CFRunLoopAddSource (trace w)"
  shows "host_run_loop env_remote w =
           Some (Return () (passes env_remote 3 (w\<lparr>trace := trace w @ [(CFRunLoopRun, [])]\<rparr>)))"
proof -
  let ?w1 = "w\<lparr>trace := trace w @ [(CFRunLoopRun, [])]\<rparr>"
  have "QueueCallbackFunction env_remote ?w1 = Some (Return () (passes env_remote (Suc 2) ?w1))"
    by (rule QueueCallbackFunction_terminates) (simp_all add: assms env_remote_def kIOReturnUnderrun_def)
  moreover have "Suc 2 = 3" by simp
  ultimately have "QueueCallbackFunction env_remote ?w1 = Some (Return () (passes env_remote 3 ?w1))"
    by simp
  moreover have "runloop_wakeups env_remote = Suc 0" "runloop_returns env_remote"
    by (simp_all add: env_remote_def)
  ultimately show ?thesis
    using assms(2) by (simp add: host_run_loop_def os_call_eq obind_def del: passes.simps)
qed

lemma main_after_options:
  "main_options opts w0 = Return () w \<Longrightarrow>
     main env opts w0 = obind (setupAndRun env w) (\<lambda>_ w2. Some (Return 0 w2))"
  by (simp add: main_def obind_def)

lemma setupAndRun_no_device:
  assumes "os_ret env IOServiceGetMatchingService (calls IOServiceGetMatchingService (trace w)) = 0"
  shows "setupAndRun env w =
           Some (Exit 1 (w\<lparr>stderr := stderr w @ ''Apple Infrared Remote not found.'' @ [newline],
              trace := trace w @ [(IOServiceNameMatching, []), (IOServiceGetMatchingService, [])]\<rparr>))"
  using assms by (simp add: setupAndRun_def os_call_eq fprintf_stderr_def)

lemma setupAndRun_no_interface:
  assumes "os_ret env IOServiceGetMatchingService (calls IOServiceGetMatchingService (trace w)) \<noteq> 0"
      and "os_ret env IOObjectGetClass (calls IOObjectGetClass (trace w)) \<noteq> kIOReturnSuccess
           \<or> os_ret env IOCreatePlugInInterfaceForService
                (calls IOCreatePlugInInterfaceForService (trace w)) \<noteq> kIOReturnSuccess
           \<or> os_ret env plugIn_QueryInterface (calls plugIn_QueryInterface (trace w)) \<noteq> S_OK"
  shows "\<exists>c w' msg. setupAndRun env w = Some (Exit c w') \<and> c \<noteq> 0 \<and> msg \<noteq> []
           \<and> stderr w' = stderr w @ msg
           \<and> calls hid_open (trace w') = calls hid_open (trace w)"
proof (cases "os_ret env IOObjectGetClass (calls IOObjectGetClass (trace w)) = 0")
  case False
  with assms(1) show ?thesis
    by (simp add: setupAndRun_def createHIDDeviceInterface_def print_errmsg_if_io_err_def
          os_call_eq obind_def bind_def Let_def fprintf_stderr_def kIOReturnSuccess_def EX_OSERR_def)
next
  case gc: True
  show ?thesis
  proof (cases "os_ret env IOCreatePlugInInterfaceForService
                  (calls IOCreatePlugInInterfaceForService (trace w)) = 0")
    case False
    with assms(1) gc show ?thesis
      by (simp add: setupAndRun_def createHIDDeviceInterface_def print_errmsg_if_io_err_def
            getHIDCookies_def
            os_call_eq obind_def bind_def Let_def fprintf_stderr_def kIOReturnSuccess_def
            EX_OSERR_def)
  next
    case True
    with assms(2) gc
    have "os_ret env plugIn_QueryInterface (calls plugIn_QueryInterface (trace w)) \<noteq> 0"
      by (simp add: kIOReturnSuccess_def S_OK_def)
    with assms(1) gc True show ?thesis
      by (simp add: setupAndRun_def createHIDDeviceInterface_def print_errmsg_if_io_err_def
            print_errmsg_if_err_def
            os_call_eq obind_def bind_def Let_def fprintf_stderr_def kIOReturnSuccess_def
            S_OK_def EX_OSERR_def)
  qed
qed

lemma setupAndRun_no_queue:
  assumes "os_ret env IOServiceGetMatchingService (calls IOServiceGetMatchingService (trace w)) \<noteq> 0"
      and "os_ret env IOObjectGetClass (calls IOObjectGetClass (trace w)) = kIOReturnSuccess"
      and "os_ret env IOCreatePlugInInterfaceForService
                (calls IOCreatePlugInInterfaceForService (trace w)) = kIOReturnSuccess"
      and "os_ret env plugIn_QueryInterface (calls plugIn_QueryInterface (trace w)) = S_OK"
      and "os_hdi env = Interface True"
      and "os_ret env malloc (calls malloc (trace w)) \<noteq> 0"
      and "os_ret env hid_copyMatchingElements (calls hid_copyMatchingElements (trace w))
             = kIOReturnSuccess"
      and "os_ret env IOObjectRelease (calls IOObjectRelease (trace w)) = kIOReturnSuccess"
      and "os_ret env hid_allocQueue (calls hid_allocQueue (trace w)) = 0"
  shows "\<exists>w'. setupAndRun env w = Some (Return () w')
           \<and> stderr w' = stderr w @ ''Failed to allocate event queue.'' @ [newline]
           \<and> calls CFRunLoopRun (trace w') = calls CFRunLoopRun (trace w)"
  using assms
  by (simp add: setupAndRun_def createHIDDeviceInterface_def print_errmsg_if_io_err_def
        print_errmsg_if_err_def getHIDCookies_def doRun_def processQueue_def
        os_call_eq obind_def bind_def Let_def fprintf_stderr_def kIOReturnSuccess_def
        S_OK_def KERN_SUCCESS_def case_prod_beta getHIDCookies_loop_fields)

lemma env_no_queue_answers:
  "os_ret env_no_queue IOServiceGetMatchingService (calls IOServiceGetMatchingService (trace initial_world)) \<noteq> 0
   \<and> os_ret env_no_queue IOObjectGetClass (calls IOObjectGetClass (trace initial_world)) = kIOReturnSuccess
   \<and> os_ret env_no_queue IOCreatePlugInInterfaceForService
        (calls IOCreatePlugInInterfaceForService (trace initial_world)) = kIOReturnSuccess
   \<and> os_ret env_no_queue plugIn_QueryInterface (calls plugIn_QueryInterface (trace initial_world)) = S_OK
   \<and> os_hdi env_no_queue = Interface True
   \<and> os_ret env_no_queue malloc (calls malloc (trace initial_world)) \<noteq> 0
   \<and> os_ret env_no_queue hid_copyMatchingElements (calls hid_copyMatchingElements (trace initial_world))
        = kIOReturnSuccess
   \<and> os_ret env_no_queue IOObjectRelease (calls IOObjectRelease (trace initial_world)) = kIOReturnSuccess
   \<and> os_ret env_no_queue hid_allocQueue (calls hid_allocQueue (trace initial_world)) = 0"
  by (simp add: env_no_queue_def eval_remote kIOReturnSuccess_def S_OK_def)

lemma main_options_driveKeynote:
  "main_options opts w0 = Return () w1 \<Longrightarrow>
     (driveKeynote w1 \<noteq> 0 \<longleftrightarrow> CHR ''k'' \<in> set opts \<or> driveKeynote w0 \<noteq> 0)"
  by (induction opts arbitrary: w0) (auto split: if_splits)

lemma setupAndRun_get_class_failure:
  assumes "os_ret env IOServiceGetMatchingService (calls IOServiceGetMatchingService (trace w)) \<noteq> 0"
      and "os_ret env IOObjectGetClass (calls IOObjectGetClass (trace w)) \<noteq> kIOReturnSuccess"
  shows "setupAndRun env w =
           Some (Exit EX_OSERR
             (w\<lparr>stderr := stderr w @ ''*** Failed to get class name. - ''
                  @ os_mach_error_string env
                      (os_ret env IOObjectGetClass (calls IOObjectGetClass (trace w)))
                  @ ''(''
                  @ fmt_x (os_ret env IOObjectGetClass (calls IOObjectGetClass (trace w)))
                  @ '', ''
                  @ fmt_d (os_ret env IOObjectGetClass (calls IOObjectGetClass (trace w))
                           AND 0xffffff)
                  @ '').'' @ [newline],
                trace := trace w @
                  [(IOServiceNameMatching, []), (IOServiceGetMatchingService, []),
                   (IOObjectGetClass,
                    [os_ret env IOServiceGetMatchingService
                       (calls IOServiceGetMatchingService (trace w))])]\<rparr>))"
  using assms
  by (simp add: setupAndRun_def createHIDDeviceInterface_def print_errmsg_if_io_err_def
        os_call_eq obind_def bind_def Let_def fprintf_stderr_def kIOReturnSuccess_def)

lemma setupAndRun_query_interface_failure:
  assumes "os_ret env IOServiceGetMatchingService (calls IOServiceGetMatchingService (trace w)) \<noteq> 0"
      and "os_ret env IOObjectGetClass (calls IOObjectGetClass (trace w)) = kIOReturnSuccess"
      and "os_ret env IOCreatePlugInInterfaceForService
             (calls IOCreatePlugInInterfaceForService (trace w)) = kIOReturnSuccess"
      and "os_ret env plugIn_QueryInterface (calls plugIn_QueryInterface (trace w)) \<noteq> S_OK"
  shows "setupAndRun env w =
           Some (Exit EX_OSERR
             (w\<lparr>stderr := stderr w @ ''*** Failed to create device interface.'' @ [newline]
                  @ ''.'' @ [newline],
                trace := trace w @
                  [(IOServiceNameMatching, []), (IOServiceGetMatchingService, []),
                   (IOObjectGetClass,
                    [os_ret env IOServiceGetMatchingService
                       (calls IOServiceGetMatchingService (trace w))]),
                   (IOCreatePlugInInterfaceForService,
                    [os_ret env IOServiceGetMatchingService
                       (calls IOServiceGetMatchingService (trace w))]),
                   (plugIn_QueryInterface, [])]\<rparr>))"
  using assms
  by (simp add: setupAndRun_def createHIDDeviceInterface_def print_errmsg_if_io_err_def
        print_errmsg_if_err_def
        os_call_eq obind_def bind_def Let_def fprintf_stderr_def kIOReturnSuccess_def S_OK_def)

lemma setupAndRun_create_plugin_failure:
  assumes "os_ret env IOServiceGetMatchingService (calls IOServiceGetMatchingService (trace w)) \<noteq> 0"
      and "os_ret env IOObjectGetClass (calls IOObjectGetClass (trace w)) = kIOReturnSuccess"
      and "os_ret env IOCreatePlugInInterfaceForService
             (calls IOCreatePlugInInterfaceForService (trace w)) \<noteq> kIOReturnSuccess"
      and "os_ret env malloc (calls malloc (trace w)) \<noteq> 0"
      and "os_ret env IOObjectRelease (calls IOObjectRelease (trace w)) = kIOReturnSuccess"
  shows "setupAndRun env w =
           Some (Exit 1
             (w\<lparr>stderr := stderr w @ ''No HID.'' @ [newline],
                trace := trace w @
                  [(IOServiceNameMatching, []), (IOServiceGetMatchingService, []),
                   (IOObjectGetClass,
                    [os_ret env IOServiceGetMatchingService
                       (calls IOServiceGetMatchingService (trace w))]),
                   (IOCreatePlugInInterfaceForService,
                    [os_ret env IOServiceGetMatchingService
                       (calls IOServiceGetMatchingService (trace w))]),
                   (malloc, []),
                   (IOObjectRelease,
                    [os_ret env IOServiceGetMatchingService
                       (calls IOServiceGetMatchingService (trace w))])]\<rparr>))"
  using assms
  by (simp add: setupAndRun_def createHIDDeviceInterface_def print_errmsg_if_io_err_def
        getHIDCookies_def
        os_call_eq obind_def bind_def Let_def fprintf_stderr_def kIOReturnSuccess_def)

lemma fmt_kIOReturnError:
  "fmt_x kIOReturnError = ''e00002bc''" "fmt_d (kIOReturnError AND 0xffffff) = ''700''"
  by (simp_all add: fmt_x_def fmt_d_def kIOReturnError_def show_hex.simps show_dec.simps hex_digit_def)

section \<open>The claims\<close>

subsection \<open>C1: one line per dequeued event\<close>

text \<open>
  Claim C1. For every event the callback dequeues, exactly one line is written to standard
  output, of the form identifier, space, label: the identifier is the element cookie of the
  event in hexadecimal, the label is \<^verbatim>\<open>depressed\<close> if and only if the value of the event is 0 and
  \<^verbatim>\<open>pressed\<close> otherwise. The theorem gives the output of a whole call of the callback on a queue
  of \<open>n\<close> events, the output of a single pass of its loop, and that the identifier printed reads
  back as the cookie and contains no line break.
\<close>
theorem QueueCallbackFunction_prints_one_line_per_event:
  assumes "\<forall>i<n. os_ret env queue_getNextEvent (calls queue_getNextEvent (trace w) + i) = 0"
      and "os_ret env queue_getNextEvent (calls queue_getNextEvent (trace w) + n) \<noteq> 0"
  shows "(\<exists>w'. QueueCallbackFunction env w = Some (Return () w') \<and>
           stdout w' = stdout w @ concat (map (\<lambda>i.
              fmt_alt_lx (elementCookie (os_event env (calls queue_getNextEvent (trace w) + i)))
              @ '' ''
              @ (if event_value (os_event env (calls queue_getNextEvent (trace w) + i)) = 0
                 then ''depressed'' else ''pressed'')
              @ [newline]) [0..<n]))
       \<and> stdout (world_of (QueueCallback_body env w)) =
           stdout w @
             (if os_ret env queue_getNextEvent (calls queue_getNextEvent (trace w)) = 0
              then fmt_alt_lx (elementCookie (os_event env (calls queue_getNextEvent (trace w))))
                   @ '' ''
                   @ (if event_value (os_event env (calls queue_getNextEvent (trace w))) = 0
                      then ''depressed'' else ''pressed'')
                   @ [newline]
              else [])
       \<and> (\<forall>x. read_hex (fmt_alt_lx x) = unat x \<and> newline \<notin> set (fmt_alt_lx x))"
proof (intro conjI)
  from passes_stdout_events [OF assms(1)] passes_stdout_last [OF assms(2)]
       QueueCallbackFunction_terminates [OF assms]
  show "\<exists>w'. QueueCallbackFunction env w = Some (Return () w') \<and>
           stdout w' = stdout w @ concat (map (\<lambda>i.
              fmt_alt_lx (elementCookie (os_event env (calls queue_getNextEvent (trace w) + i)))
              @ '' ''
              @ (if event_value (os_event env (calls queue_getNextEvent (trace w) + i)) = 0
                 then ''depressed'' else ''pressed'')
              @ [newline]) [0..<n])"
    by (intro exI [of _ "passes env (Suc n) w"]) (simp del: passes.simps)
  show "\<forall>x. read_hex (fmt_alt_lx x) = unat x \<and> newline \<notin> set (fmt_alt_lx x)"
    by (simp add: read_hex_fmt_alt_lx newline_notin_fmt_alt_lx)
  show "stdout (world_of (QueueCallback_body env w)) =
           stdout w @
             (if os_ret env queue_getNextEvent (calls queue_getNextEvent (trace w)) = 0
              then fmt_alt_lx (elementCookie (os_event env (calls queue_getNextEvent (trace w))))
                   @ '' ''
                   @ (if event_value (os_event env (calls queue_getNextEvent (trace w))) = 0
                      then ''depressed'' else ''pressed'')
                   @ [newline]
              else [])"
    by (simp add: QueueCallback_body_stdout next_ret_def next_event_def)
qed

theorem QueueCallbackFunction_prints_one_line_per_event_witness:
  "os_ret env_remote queue_getNextEvent (calls queue_getNextEvent (trace remote_world) + 0) = 0
   \<and> os_ret env_remote queue_getNextEvent (calls queue_getNextEvent (trace remote_world) + 1) = 0
   \<and> os_ret env_remote queue_getNextEvent (calls queue_getNextEvent (trace remote_world) + 2) \<noteq> 0
   \<and> (\<exists>w'. QueueCallbackFunction env_remote remote_world = Some (Return () w') \<and>
          stdout w' = ''0x15 pressed'' @ [newline] @ ''0x15 depressed'' @ [newline])"
proof -
  have h1: "\<forall>i<2. os_ret env_remote queue_getNextEvent
              (calls queue_getNextEvent (trace remote_world) + i) = 0"
    by (simp add: eval_remote)
  have h2: "os_ret env_remote queue_getNextEvent
              (calls queue_getNextEvent (trace remote_world) + 2) \<noteq> 0"
    by (simp add: eval_remote)
  have h0: "os_ret env_remote queue_getNextEvent
              (calls queue_getNextEvent (trace remote_world) + 0) = 0
            \<and> os_ret env_remote queue_getNextEvent
              (calls queue_getNextEvent (trace remote_world) + 1) = 0"
    by (simp add: eval_remote)
  have hex: "fmt_alt_lx 0x15 = ''0x15''"
    by (simp add: fmt_alt_lx_def show_hex.simps hex_digit_def)
  from QueueCallbackFunction_prints_one_line_per_event [OF h1 h2]
  obtain w' where "QueueCallbackFunction env_remote remote_world = Some (Return () w')"
    and "stdout w' = stdout remote_world @ concat (map (\<lambda>i.
              fmt_alt_lx (elementCookie (os_event env_remote
                 (calls queue_getNextEvent (trace remote_world) + i)))
              @ '' ''
              @ (if event_value (os_event env_remote
                   (calls queue_getNextEvent (trace remote_world) + i)) = 0
                 then ''depressed'' else ''pressed'')
              @ [newline]) [0..<2])"
    by blast
  then have "QueueCallbackFunction env_remote remote_world = Some (Return () w') \<and>
          stdout w' = ''0x15 pressed'' @ [newline] @ ''0x15 depressed'' @ [newline]"
    by (simp add: eval_remote hex numeral_2_eq_2)
  with h0 h2 show ?thesis by blast
qed

subsection \<open>C2: which events are forwarded to Keynote\<close>

text \<open>
  Claim C2, as the code has it. For every dequeued event a slide action is requested if and
  only if \<open>driveKeynote\<close> is set, the value of the event is nonzero and its cookie equals
  \<open>buttonNextID\<close> or \<open>buttonPreviousID\<close>; a match on \<open>buttonNextID\<close> requests the forward action,
  and a match on \<open>buttonPreviousID\<close> that is not also a match on \<open>buttonNextID\<close> requests the
  backward action. The option loop of \<open>main\<close>, when it does not end the process, leaves
  \<open>driveKeynote\<close> set exactly when \<^verbatim>\<open>-k\<close> was among the options or it was set before.
\<close>
theorem QueueCallback_forwards_navigation_presses:
  assumes "os_ret env queue_getNextEvent (calls queue_getNextEvent (trace w)) = 0"
  shows "(keynote_requests (trace (world_of (QueueCallback_body env w))) \<noteq> keynote_requests (trace w)
          \<longleftrightarrow>
          driveKeynote w \<noteq> 0
          \<and> event_value (os_event env (calls queue_getNextEvent (trace w))) \<noteq> 0
          \<and> (elementCookie (os_event env (calls queue_getNextEvent (trace w))) = buttonNextID w
             \<or> elementCookie (os_event env (calls queue_getNextEvent (trace w))) = buttonPreviousID w))
       \<and> (driveKeynote w \<noteq> 0
          \<and> event_value (os_event env (calls queue_getNextEvent (trace w))) \<noteq> 0
          \<and> elementCookie (os_event env (calls queue_getNextEvent (trace w))) = buttonNextID w
          \<longrightarrow> keynote_requests (trace (world_of (QueueCallback_body env w)))
                = keynote_requests (trace w) @ [slideForward])
       \<and> (driveKeynote w \<noteq> 0
          \<and> event_value (os_event env (calls queue_getNextEvent (trace w))) \<noteq> 0
          \<and> elementCookie (os_event env (calls queue_getNextEvent (trace w))) = buttonPreviousID w
          \<and> elementCookie (os_event env (calls queue_getNextEvent (trace w))) \<noteq> buttonNextID w
          \<longrightarrow> keynote_requests (trace (world_of (QueueCallback_body env w)))
                = keynote_requests (trace w) @ [slideBackward])
       \<and> (\<forall>opts w0 w1. main_options opts w0 = Return () w1 \<longrightarrow>
            (driveKeynote w1 \<noteq> 0 \<longleftrightarrow> CHR ''k'' \<in> set opts \<or> driveKeynote w0 \<noteq> 0))"
  using assms main_options_driveKeynote
  by (simp add: QueueCallback_body_requests next_ret_def next_event_def)

theorem QueueCallback_forwards_navigation_presses_witness:
  "os_ret env_remote queue_getNextEvent (calls queue_getNextEvent (trace remote_world)) = 0
   \<and> driveKeynote remote_world \<noteq> 0
   \<and> event_value (os_event env_remote (calls queue_getNextEvent (trace remote_world))) \<noteq> 0
   \<and> elementCookie (os_event env_remote (calls queue_getNextEvent (trace remote_world)))
       = buttonNextID remote_world
   \<and> keynote_requests (trace (world_of (QueueCallback_body env_remote remote_world)))
       = keynote_requests (trace remote_world) @ [slideForward]
   \<and> keynote_requests (trace (world_of (QueueCallback_body env_remote remote_world)))
       \<noteq> keynote_requests (trace remote_world)
   \<and> main_options ''k'' initial_world = Return () (initial_world\<lparr>driveKeynote := 1\<rparr>)
   \<and> driveKeynote (initial_world\<lparr>driveKeynote := 1\<rparr>) \<noteq> 0
   \<and> CHR ''k'' \<in> set ''k''"
proof -
  have h: "os_ret env_remote queue_getNextEvent (calls queue_getNextEvent (trace remote_world)) = 0"
    by (simp add: eval_remote)
  have c: "driveKeynote remote_world \<noteq> 0
   \<and> event_value (os_event env_remote (calls queue_getNextEvent (trace remote_world))) \<noteq> 0
   \<and> elementCookie (os_event env_remote (calls queue_getNextEvent (trace remote_world)))
       = buttonNextID remote_world"
    by (simp add: eval_remote)
  from QueueCallback_forwards_navigation_presses [OF h] c
  have "keynote_requests (trace (world_of (QueueCallback_body env_remote remote_world)))
       = keynote_requests (trace remote_world) @ [slideForward]
     \<and> keynote_requests (trace (world_of (QueueCallback_body env_remote remote_world)))
       \<noteq> keynote_requests (trace remote_world)"
    by blast
  moreover have o: "main_options ''k'' initial_world = Return () (initial_world\<lparr>driveKeynote := 1\<rparr>)"
    by simp
  moreover from QueueCallback_forwards_navigation_presses [OF h] o
  have "driveKeynote (initial_world\<lparr>driveKeynote := 1\<rparr>) \<noteq> 0 \<longleftrightarrow>
          CHR ''k'' \<in> set ''k'' \<or> driveKeynote initial_world \<noteq> 0"
    by blast
  then have "driveKeynote (initial_world\<lparr>driveKeynote := 1\<rparr>) \<noteq> 0 \<and> CHR ''k'' \<in> set ''k''"
    by simp
  ultimately show ?thesis using h c by blast
qed

text \<open>
  The claim as it was written lets every match on \<open>buttonPreviousID\<close> request the backward
  action. With both identifiers unresolved and a press of an element with cookie 0, the event
  matches \<open>buttonPreviousID\<close> and the forward action is requested.
\<close>
theorem previous_match_requests_forward_counterexample:
  "os_ret env_unresolved queue_getNextEvent (calls queue_getNextEvent (trace unresolved_world)) = 0
   \<and> driveKeynote unresolved_world \<noteq> 0
   \<and> event_value (os_event env_unresolved (calls queue_getNextEvent (trace unresolved_world))) \<noteq> 0
   \<and> elementCookie (os_event env_unresolved (calls queue_getNextEvent (trace unresolved_world)))
       = buttonPreviousID unresolved_world
   \<and> keynote_requests (trace (world_of (QueueCallback_body env_unresolved unresolved_world)))
       = keynote_requests (trace unresolved_world) @ [slideForward]
   \<and> keynote_requests (trace (world_of (QueueCallback_body env_unresolved unresolved_world)))
       \<noteq> keynote_requests (trace unresolved_world) @ [slideBackward]"
  by (simp add: QueueCallback_body_requests next_ret_def next_event_def env_unresolved_def
        unresolved_world_def eval_remote slide_distinct)

subsection \<open>C3: failures of the setup\<close>

text \<open>
  Claim C3. Every failure of the setup (device not found, failure to create the device
  interface, failure to allocate the queue) is reported on standard error, and the process
  ends at once with a nonzero status. The theorem gives what the code does in each case; the
  state \<open>w\<close> is the one in which the option loop of \<open>main\<close> has ended.
  \<^item> Device not found: the message of line 415 and \<^verbatim>\<open>exit(1)\<close>.
  \<^item> \<^verbatim>\<open>IOObjectGetClass\<close> or \<^verbatim>\<open>QueryInterface\<close> fails: the message of \<open>print_errmsg_if_io_err\<close>
    or \<open>print_errmsg_if_err\<close> and \<^verbatim>\<open>exit(EX_OSERR)\<close>, with no framework call after the failed one.
  \<^item> \<^verbatim>\<open>IOCreatePlugInInterfaceForService\<close> fails: the process ends by \<^verbatim>\<open>exit\<close> with a nonzero
    status and a message, before the device is opened; when the allocation of the cookies
    and \<^verbatim>\<open>IOObjectRelease\<close> succeed, the message is \<^verbatim>\<open>No HID.\<close> and the status 1.
  \<^item> \<^verbatim>\<open>allocQueue\<close> fails: the message of line 235 is written, but \<open>processQueue\<close> returns
    where the claim has the process end: the run loop is not entered, the callers go on, and
    \<open>main\<close> returns 0. Here the code does not do what the claim says.
\<close>
theorem setup_failures_reported:
  assumes "main_options opts w0 = Return () w"
  shows
   "(os_ret env IOServiceGetMatchingService (calls IOServiceGetMatchingService (trace w)) = 0 \<longrightarrow>
       main env opts w0 =
         Some (Exit 1 (w\<lparr>stderr := stderr w @ ''Apple Infrared Remote not found.'' @ [newline],
            trace := trace w @ [(IOServiceNameMatching, []), (IOServiceGetMatchingService, [])]\<rparr>)))
    \<and> (os_ret env IOServiceGetMatchingService (calls IOServiceGetMatchingService (trace w)) \<noteq> 0
        \<and> os_ret env IOObjectGetClass (calls IOObjectGetClass (trace w)) \<noteq> kIOReturnSuccess \<longrightarrow>
       main env opts w0 =
         Some (Exit EX_OSERR
             (w\<lparr>stderr := stderr w @ ''*** Failed to get class name. - ''
                  @ os_mach_error_string env
                      (os_ret env IOObjectGetClass (calls IOObjectGetClass (trace w)))
                  @ ''(''
                  @ fmt_x (os_ret env IOObjectGetClass (calls IOObjectGetClass (trace w)))
                  @ '', ''
                  @ fmt_d (os_ret env IOObjectGetClass (calls IOObjectGetClass (trace w))
                           AND 0xffffff)
                  @ '').'' @ [newline],
                trace := trace w @
                  [(IOServiceNameMatching, []), (IOServiceGetMatchingService, []),
                   (IOObjectGetClass,
                    [os_ret env IOServiceGetMatchingService
                       (calls IOServiceGetMatchingService (trace w))])]\<rparr>)))
    \<and> (os_ret env IOServiceGetMatchingService (calls IOServiceGetMatchingService (trace w)) \<noteq> 0
        \<and> os_ret env IOObjectGetClass (calls IOObjectGetClass (trace w)) = kIOReturnSuccess
        \<and> os_ret env IOCreatePlugInInterfaceForService
             (calls IOCreatePlugInInterfaceForService (trace w)) = kIOReturnSuccess
        \<and> os_ret env plugIn_QueryInterface (calls plugIn_QueryInterface (trace w)) \<noteq> S_OK \<longrightarrow>
       main env opts w0 =
         Some (Exit EX_OSERR
             (w\<lparr>stderr := stderr w @ ''*** Failed to create device interface.'' @ [newline]
                  @ ''.'' @ [newline],
                trace := trace w @
                  [(IOServiceNameMatching, []), (IOServiceGetMatchingService, []),
                   (IOObjectGetClass,
                    [os_ret env IOServiceGetMatchingService
                       (calls IOServiceGetMatchingService (trace w))]),
                   (IOCreatePlugInInterfaceForService,
                    [os_ret env IOServiceGetMatchingService
                       (calls IOServiceGetMatchingService (trace w))]),
                   (plugIn_QueryInterface, [])]\<rparr>)))
    \<and> (os_ret env IOServiceGetMatchingService (calls IOServiceGetMatchingService (trace w)) \<noteq> 0
        \<and> os_ret env IOObjectGetClass (calls IOObjectGetClass (trace w)) = kIOReturnSuccess
        \<and> os_ret env IOCreatePlugInInterfaceForService
             (calls IOCreatePlugInInterfaceForService (trace w)) \<noteq> kIOReturnSuccess \<longrightarrow>
       (\<exists>c w' msg. main env opts w0 = Some (Exit c w') \<and> c \<noteq> 0 \<and> msg \<noteq> []
           \<and> stderr w' = stderr w @ msg
           \<and> calls hid_open (trace w') = calls hid_open (trace w)))
    \<and> (os_ret env IOServiceGetMatchingService (calls IOServiceGetMatchingService (trace w)) \<noteq> 0
        \<and> os_ret env IOObjectGetClass (calls IOObjectGetClass (trace w)) = kIOReturnSuccess
        \<and> os_ret env IOCreatePlugInInterfaceForService
             (calls IOCreatePlugInInterfaceForService (trace w)) \<noteq> kIOReturnSuccess
        \<and> os_ret env malloc (calls malloc (trace w)) \<noteq> 0
        \<and> os_ret env IOObjectRelease (calls IOObjectRelease (trace w)) = kIOReturnSuccess \<longrightarrow>
       main env opts w0 =
         Some (Exit 1
             (w\<lparr>stderr := stderr w @ ''No HID.'' @ [newline],
                trace := trace w @
                  [(IOServiceNameMatching, []), (IOServiceGetMatchingService, []),
                   (IOObjectGetClass,
                    [os_ret env IOServiceGetMatchingService
                       (calls IOServiceGetMatchingService (trace w))]),
                   (IOCreatePlugInInterfaceForService,
                    [os_ret env IOServiceGetMatchingService
                       (calls IOServiceGetMatchingService (trace w))]),
                   (malloc, []),
                   (IOObjectRelease,
                    [os_ret env IOServiceGetMatchingService
                       (calls IOServiceGetMatchingService (trace w))])]\<rparr>)))
    \<and> (os_ret env IOServiceGetMatchingService (calls IOServiceGetMatchingService (trace w)) \<noteq> 0
        \<and> os_ret env IOObjectGetClass (calls IOObjectGetClass (trace w)) = kIOReturnSuccess
        \<and> os_ret env IOCreatePlugInInterfaceForService
                (calls IOCreatePlugInInterfaceForService (trace w)) = kIOReturnSuccess
        \<and> os_ret env plugIn_QueryInterface (calls plugIn_QueryInterface (trace w)) = S_OK
        \<and> os_hdi env = Interface True
        \<and> os_ret env malloc (calls malloc (trace w)) \<noteq> 0
        \<and> os_ret env hid_copyMatchingElements (calls hid_copyMatchingElements (trace w))
             = kIOReturnSuccess
        \<and> os_ret env IOObjectRelease (calls IOObjectRelease (trace w)) = kIOReturnSuccess
        \<and> os_ret env hid_allocQueue (calls hid_allocQueue (trace w)) = 0 \<longrightarrow>
       (\<exists>w'. main env opts w0 = Some (Return 0 w')
           \<and> stderr w' = stderr w @ ''Failed to allocate event queue.'' @ [newline]
           \<and> calls CFRunLoopRun (trace w') = calls CFRunLoopRun (trace w)))
    \<and> EX_OSERR \<noteq> 0"
proof -
  note m = main_after_options [OF assms, of env]
  have p1: "os_ret env IOServiceGetMatchingService (calls IOServiceGetMatchingService (trace w)) = 0 \<longrightarrow>
       main env opts w0 =
         Some (Exit 1 (w\<lparr>stderr := stderr w @ ''Apple Infrared Remote not found.'' @ [newline],
            trace := trace w @ [(IOServiceNameMatching, []), (IOServiceGetMatchingService, [])]\<rparr>))"
    using setupAndRun_no_device [of env w] by (auto simp: m obind_def)
  have p2: "os_ret env IOServiceGetMatchingService (calls IOServiceGetMatchingService (trace w)) \<noteq> 0
        \<and> os_ret env IOObjectGetClass (calls IOObjectGetClass (trace w)) \<noteq> kIOReturnSuccess \<longrightarrow>
       main env opts w0 =
         Some (Exit EX_OSERR
             (w\<lparr>stderr := stderr w @ ''*** Failed to get class name. - ''
                  @ os_mach_error_string env
                      (os_ret env IOObjectGetClass (calls IOObjectGetClass (trace w)))
                  @ ''(''
                  @ fmt_x (os_ret env IOObjectGetClass (calls IOObjectGetClass (trace w)))
                  @ '', ''
                  @ fmt_d (os_ret env IOObjectGetClass (calls IOObjectGetClass (trace w))
                           AND 0xffffff)
                  @ '').'' @ [newline],
                trace := trace w @
                  [(IOServiceNameMatching, []), (IOServiceGetMatchingService, []),
                   (IOObjectGetClass,
                    [os_ret env IOServiceGetMatchingService
                       (calls IOServiceGetMatchingService (trace w))])]\<rparr>))"
    using setupAndRun_get_class_failure [of env w] by (auto simp: m obind_def)
  have p3: "os_ret env IOServiceGetMatchingService (calls IOServiceGetMatchingService (trace w)) \<noteq> 0
        \<and> os_ret env IOObjectGetClass (calls IOObjectGetClass (trace w)) = kIOReturnSuccess
        \<and> os_ret env IOCreatePlugInInterfaceForService
             (calls IOCreatePlugInInterfaceForService (trace w)) = kIOReturnSuccess
        \<and> os_ret env plugIn_QueryInterface (calls plugIn_QueryInterface (trace w)) \<noteq> S_OK \<longrightarrow>
       main env opts w0 =
         Some (Exit EX_OSERR
             (w\<lparr>stderr := stderr w @ ''*** Failed to create device interface.'' @ [newline]
                  @ ''.'' @ [newline],
                trace := trace w @
                  [(IOServiceNameMatching, []), (IOServiceGetMatchingService, []),
                   (IOObjectGetClass,
                    [os_ret env IOServiceGetMatchingService
                       (calls IOServiceGetMatchingService (trace w))]),
                   (IOCreatePlugInInterfaceForService,
                    [os_ret env IOServiceGetMatchingService
                       (calls IOServiceGetMatchingService (trace w))]),
                   (plugIn_QueryInterface, [])]\<rparr>))"
    using setupAndRun_query_interface_failure [of env w] by (auto simp: m obind_def)
  have p4: "os_ret env IOServiceGetMatchingService (calls IOServiceGetMatchingService (trace w)) \<noteq> 0
        \<and> os_ret env IOObjectGetClass (calls IOObjectGetClass (trace w)) = kIOReturnSuccess
        \<and> os_ret env IOCreatePlugInInterfaceForService
             (calls IOCreatePlugInInterfaceForService (trace w)) \<noteq> kIOReturnSuccess \<longrightarrow>
       (\<exists>c w' msg. main env opts w0 = Some (Exit c w') \<and> c \<noteq> 0 \<and> msg \<noteq> []
           \<and> stderr w' = stderr w @ msg
           \<and> calls hid_open (trace w') = calls hid_open (trace w))"
  proof
    assume "os_ret env IOServiceGetMatchingService (calls IOServiceGetMatchingService (trace w)) \<noteq> 0
        \<and> os_ret env IOObjectGetClass (calls IOObjectGetClass (trace w)) = kIOReturnSuccess
        \<and> os_ret env IOCreatePlugInInterfaceForService
             (calls IOCreatePlugInInterfaceForService (trace w)) \<noteq> kIOReturnSuccess"
    then obtain c w' msg where "setupAndRun env w = Some (Exit c w')" "c \<noteq> 0" "msg \<noteq> []"
      "stderr w' = stderr w @ msg" "calls hid_open (trace w') = calls hid_open (trace w)"
      using setupAndRun_no_interface [of env w] by blast
    then show "\<exists>c w' msg. main env opts w0 = Some (Exit c w') \<and> c \<noteq> 0 \<and> msg \<noteq> []
           \<and> stderr w' = stderr w @ msg
           \<and> calls hid_open (trace w') = calls hid_open (trace w)"
      by (intro exI [of _ c] exI [of _ w'] exI [of _ msg]) (simp add: m obind_def)
  qed
  have p5: "os_ret env IOServiceGetMatchingService (calls IOServiceGetMatchingService (trace w)) \<noteq> 0
        \<and> os_ret env IOObjectGetClass (calls IOObjectGetClass (trace w)) = kIOReturnSuccess
        \<and> os_ret env IOCreatePlugInInterfaceForService
             (calls IOCreatePlugInInterfaceForService (trace w)) \<noteq> kIOReturnSuccess
        \<and> os_ret env malloc (calls malloc (trace w)) \<noteq> 0
        \<and> os_ret env IOObjectRelease (calls IOObjectRelease (trace w)) = kIOReturnSuccess \<longrightarrow>
       main env opts w0 =
         Some (Exit 1
             (w\<lparr>stderr := stderr w @ ''No HID.'' @ [newline],
                trace := trace w @
                  [(IOServiceNameMatching, []), (IOServiceGetMatchingService, []),
                   (IOObjectGetClass,
                    [os_ret env IOServiceGetMatchingService
                       (calls IOServiceGetMatchingService (trace w))]),
                   (IOCreatePlugInInterfaceForService,
                    [os_ret env IOServiceGetMatchingService
                       (calls IOServiceGetMatchingService (trace w))]),
                   (malloc, []),
                   (IOObjectRelease,
                    [os_ret env IOServiceGetMatchingService
                       (calls IOServiceGetMatchingService (trace w))])]\<rparr>))"
    using setupAndRun_create_plugin_failure [of env w] by (auto simp: m obind_def)
  have p6: "os_ret env IOServiceGetMatchingService (calls IOServiceGetMatchingService (trace w)) \<noteq> 0
        \<and> os_ret env IOObjectGetClass (calls IOObjectGetClass (trace w)) = kIOReturnSuccess
        \<and> os_ret env IOCreatePlugInInterfaceForService
                (calls IOCreatePlugInInterfaceForService (trace w)) = kIOReturnSuccess
        \<and> os_ret env plugIn_QueryInterface (calls plugIn_QueryInterface (trace w)) = S_OK
        \<and> os_hdi env = Interface True
        \<and> os_ret env malloc (calls malloc (trace w)) \<noteq> 0
        \<and> os_ret env hid_copyMatchingElements (calls hid_copyMatchingElements (trace w))
             = kIOReturnSuccess
        \<and> os_ret env IOObjectRelease (calls IOObjectRelease (trace w)) = kIOReturnSuccess
        \<and> os_ret env hid_allocQueue (calls hid_allocQueue (trace w)) = 0 \<longrightarrow>
       (\<exists>w'. main env opts w0 = Some (Return 0 w')
           \<and> stderr w' = stderr w @ ''Failed to allocate event queue.'' @ [newline]
           \<and> calls CFRunLoopRun (trace w') = calls CFRunLoopRun (trace w))"
  proof
    assume "os_ret env IOServiceGetMatchingService (calls IOServiceGetMatchingService (trace w)) \<noteq> 0
        \<and> os_ret env IOObjectGetClass (calls IOObjectGetClass (trace w)) = kIOReturnSuccess
        \<and> os_ret env IOCreatePlugInInterfaceForService
                (calls IOCreatePlugInInterfaceForService (trace w)) = kIOReturnSuccess
        \<and> os_ret env plugIn_QueryInterface (calls plugIn_QueryInterface (trace w)) = S_OK
        \<and> os_hdi env = Interface True
        \<and> os_ret env malloc (calls malloc (trace w)) \<noteq> 0
        \<and> os_ret env hid_copyMatchingElements (calls hid_copyMatchingElements (trace w))
             = kIOReturnSuccess
        \<and> os_ret env IOObjectRelease (calls IOObjectRelease (trace w)) = kIOReturnSuccess
        \<and> os_ret env hid_allocQueue (calls hid_allocQueue (trace w)) = 0"
    then obtain w' where "setupAndRun env w = Some (Return () w')"
      "stderr w' = stderr w @ ''Failed to allocate event queue.'' @ [newline]"
      "calls CFRunLoopRun (trace w') = calls CFRunLoopRun (trace w)"
      using setupAndRun_no_queue [of env w] by blast
    then show "\<exists>w'. main env opts w0 = Some (Return 0 w')
           \<and> stderr w' = stderr w @ ''Failed to allocate event queue.'' @ [newline]
           \<and> calls CFRunLoopRun (trace w') = calls CFRunLoopRun (trace w)"
      by (intro exI [of _ w']) (simp add: m obind_def)
  qed
  have p7: "EX_OSERR \<noteq> 0" by (simp add: EX_OSERR_def)
  from p1 p2 p3 p4 p5 p6 p7 show ?thesis by (intro conjI)
qed

theorem setup_failures_reported_witness:
  "main_options [] initial_world = Return () initial_world
   \<and> os_ret env_no_device IOServiceGetMatchingService
        (calls IOServiceGetMatchingService (trace initial_world)) = 0
   \<and> main env_no_device [] initial_world =
        Some (Exit 1 (initial_world\<lparr>stderr := ''Apple Infrared Remote not found.'' @ [newline],
           trace := [(IOServiceNameMatching, []), (IOServiceGetMatchingService, [])]\<rparr>))
   \<and> os_ret env_no_class IOObjectGetClass (calls IOObjectGetClass (trace initial_world))
        \<noteq> kIOReturnSuccess
   \<and> main env_no_class [] initial_world =
        Some (Exit 71 (initial_world\<lparr>stderr :=
             ''*** Failed to get class name. - (iokit/common) general error(e00002bc, 700).''
             @ [newline],
           trace := [(IOServiceNameMatching, []), (IOServiceGetMatchingService, []),
                     (IOObjectGetClass, [0x1000])]\<rparr>))
   \<and> os_ret env_no_query plugIn_QueryInterface (calls plugIn_QueryInterface (trace initial_world))
        \<noteq> S_OK
   \<and> main env_no_query [] initial_world =
        Some (Exit 71 (initial_world\<lparr>stderr :=
             ''*** Failed to create device interface.'' @ [newline] @ ''.'' @ [newline],
           trace := [(IOServiceNameMatching, []), (IOServiceGetMatchingService, []),
                     (IOObjectGetClass, [0x1000]), (IOCreatePlugInInterfaceForService, [0x1000]),
                     (plugIn_QueryInterface, [])]\<rparr>))
   \<and> os_ret env_no_interface IOCreatePlugInInterfaceForService
        (calls IOCreatePlugInInterfaceForService (trace initial_world)) \<noteq> kIOReturnSuccess
   \<and> main env_no_interface [] initial_world =
        Some (Exit 1 (initial_world\<lparr>stderr := ''No HID.'' @ [newline],
           trace := [(IOServiceNameMatching, []), (IOServiceGetMatchingService, []),
                     (IOObjectGetClass, [0x1000]), (IOCreatePlugInInterfaceForService, [0x1000]),
                     (malloc, []), (IOObjectRelease, [0x1000])]\<rparr>))
   \<and> os_ret env_no_queue hid_allocQueue (calls hid_allocQueue (trace initial_world)) = 0
   \<and> (\<exists>w'. main env_no_queue [] initial_world = Some (Return 0 w')
           \<and> stderr w' = ''Failed to allocate event queue.'' @ [newline]
           \<and> calls CFRunLoopRun (trace w') = 0)
   \<and> map_option exit_status (main env_no_queue [] initial_world) = Some (Some 0)"
proof -
  have o: "main_options [] initial_world = Return () initial_world"
    by simp
  note inst = setup_failures_reported [OF o]
  have d: "os_ret env_no_device IOServiceGetMatchingService
        (calls IOServiceGetMatchingService (trace initial_world)) = 0"
    by (simp add: env_no_device_def)
  have c: "os_ret env_no_class IOServiceGetMatchingService
        (calls IOServiceGetMatchingService (trace initial_world)) = 0x1000"
    "os_ret env_no_class IOObjectGetClass (calls IOObjectGetClass (trace initial_world))
        = kIOReturnError"
    "kIOReturnError \<noteq> kIOReturnSuccess" "(0x1000 :: 32 word) \<noteq> 0"
    "os_mach_error_string env_no_class kIOReturnError = ''(iokit/common) general error''"
    by (simp_all add: env_no_class_def eval_remote kIOReturnError_def kIOReturnSuccess_def)
  have q: "os_ret env_no_query IOServiceGetMatchingService
        (calls IOServiceGetMatchingService (trace initial_world)) = 0x1000"
    "os_ret env_no_query IOObjectGetClass (calls IOObjectGetClass (trace initial_world))
        = kIOReturnSuccess"
    "os_ret env_no_query IOCreatePlugInInterfaceForService
        (calls IOCreatePlugInInterfaceForService (trace initial_world)) = kIOReturnSuccess"
    "os_ret env_no_query plugIn_QueryInterface (calls plugIn_QueryInterface (trace initial_world))
        \<noteq> S_OK"
    by (simp_all add: env_no_query_def eval_remote E_NOINTERFACE_def kIOReturnSuccess_def S_OK_def)
  have i: "os_ret env_no_interface IOServiceGetMatchingService
        (calls IOServiceGetMatchingService (trace initial_world)) = 0x1000"
    "os_ret env_no_interface IOObjectGetClass (calls IOObjectGetClass (trace initial_world))
        = kIOReturnSuccess"
    "os_ret env_no_interface IOCreatePlugInInterfaceForService
        (calls IOCreatePlugInInterfaceForService (trace initial_world)) \<noteq> kIOReturnSuccess"
    "os_ret env_no_interface malloc (calls malloc (trace initial_world)) \<noteq> 0"
    "os_ret env_no_interface IOObjectRelease (calls IOObjectRelease (trace initial_world))
        = kIOReturnSuccess"
    by (simp_all add: env_no_interface_def eval_remote kIOReturnError_def kIOReturnSuccess_def)
  have n: "os_ret env_no_queue hid_allocQueue (calls hid_allocQueue (trace initial_world)) = 0"
    by (simp add: env_no_queue_def)
  have e: "EX_OSERR = 71" by (simp add: EX_OSERR_def)
  from inst [of env_no_device] d
  have "main env_no_device [] initial_world =
        Some (Exit 1 (initial_world\<lparr>stderr := stderr initial_world
              @ ''Apple Infrared Remote not found.'' @ [newline],
           trace := trace initial_world
              @ [(IOServiceNameMatching, []), (IOServiceGetMatchingService, [])]\<rparr>))"
    by blast
  then have 1: "main env_no_device [] initial_world =
        Some (Exit 1 (initial_world\<lparr>stderr := ''Apple Infrared Remote not found.'' @ [newline],
           trace := [(IOServiceNameMatching, []), (IOServiceGetMatchingService, [])]\<rparr>))"
    by (simp add: initial_world_def)
  from inst [of env_no_class, THEN conjunct2, THEN conjunct1] c
  have 2: "main env_no_class [] initial_world =
        Some (Exit 71 (initial_world\<lparr>stderr :=
             ''*** Failed to get class name. - (iokit/common) general error(e00002bc, 700).''
             @ [newline],
           trace := [(IOServiceNameMatching, []), (IOServiceGetMatchingService, []),
                     (IOObjectGetClass, [0x1000])]\<rparr>))"
    by (simp add: fmt_kIOReturnError e initial_world_def)
  from inst [of env_no_query, THEN conjunct2, THEN conjunct2, THEN conjunct1] q c(4)
  have 3: "main env_no_query [] initial_world =
        Some (Exit 71 (initial_world\<lparr>stderr :=
             ''*** Failed to create device interface.'' @ [newline] @ ''.'' @ [newline],
           trace := [(IOServiceNameMatching, []), (IOServiceGetMatchingService, []),
                     (IOObjectGetClass, [0x1000]), (IOCreatePlugInInterfaceForService, [0x1000]),
                     (plugIn_QueryInterface, [])]\<rparr>))"
    by (simp add: e initial_world_def)
  from inst [of env_no_interface, THEN conjunct2, THEN conjunct2, THEN conjunct2, THEN conjunct2,
             THEN conjunct1] i c(4)
  have 4: "main env_no_interface [] initial_world =
        Some (Exit 1 (initial_world\<lparr>stderr := ''No HID.'' @ [newline],
           trace := [(IOServiceNameMatching, []), (IOServiceGetMatchingService, []),
                     (IOObjectGetClass, [0x1000]), (IOCreatePlugInInterfaceForService, [0x1000]),
                     (malloc, []), (IOObjectRelease, [0x1000])]\<rparr>))"
    by (simp add: initial_world_def)
  from inst [of env_no_queue] env_no_queue_answers
  have "\<exists>w'. main env_no_queue [] initial_world = Some (Return 0 w')
           \<and> stderr w' = stderr initial_world @ ''Failed to allocate event queue.'' @ [newline]
           \<and> calls CFRunLoopRun (trace w') = calls CFRunLoopRun (trace initial_world)"
    by blast
  then obtain w' where w': "main env_no_queue [] initial_world = Some (Return 0 w')"
    "stderr w' = ''Failed to allocate event queue.'' @ [newline]"
    "calls CFRunLoopRun (trace w') = 0"
    by (auto simp: initial_world_def)
  then have 5: "\<exists>w'. main env_no_queue [] initial_world = Some (Return 0 w')
           \<and> stderr w' = ''Failed to allocate event queue.'' @ [newline]
           \<and> calls CFRunLoopRun (trace w') = 0"
    by blast
  from w' have 6: "map_option exit_status (main env_no_queue [] initial_world) = Some (Some 0)"
    by simp
  from q(4) i(3) c(2,3)
  have g: "os_ret env_no_class IOObjectGetClass (calls IOObjectGetClass (trace initial_world))
        \<noteq> kIOReturnSuccess"
    by simp
  from o d 1 g 2 q(4) 3 i(3) 4 n 5 6 show ?thesis by (intro conjI)
qed

subsection \<open>C4: the order of the steps of a run\<close>

text \<open>
  Claim C4 has a run locate the device, resolve the cookies, open the device, register one
  callback, run the event loop and, when that returns, close and release the device, each
  step once and in that order. The run below is one in which every framework call succeeds,
  started with \<^verbatim>\<open>-k\<close>; the theorem lists the framework calls it makes, in order. The steps
  come in the order of the claim, but \<^verbatim>\<open>open\<close> is called twice (by \<open>setupAndRun\<close> and again by
  \<open>doRun\<close>), and so are \<^verbatim>\<open>close\<close> and \<^verbatim>\<open>Release\<close> of the device interface.
\<close>
theorem device_opened_and_released_twice:
  "map_option (\<lambda>r. map fst (trace (world_of r))) (main env_remote ''k'' initial_world) =
     Some [IOServiceNameMatching, IOServiceGetMatchingService,
           IOObjectGetClass, IOCreatePlugInInterfaceForService, plugIn_QueryInterface,
           plugIn_Release,
           malloc, hid_copyMatchingElements,
           IOObjectRelease,
           hid_open,
           hid_open,
           hid_allocQueue, queue_create,
           queue_addElement, queue_addElement, queue_addElement,
           queue_addElement, queue_addElement, queue_addElement,
           malloc, queue_createAsyncEventSource, queue_setEventCallout,
           CFRunLoopGetCurrent, CFRunLoopAddSource,
           queue_start,
           CFRunLoopRun,
           queue_getNextEvent, AEBuildAppleEvent, AESend, AEDisposeDesc, AEDisposeDesc,
           queue_getNextEvent,
           queue_getNextEvent,
           queue_stop, queue_dispose, queue_Release,
           hid_close, hid_Release,
           hid_close, hid_Release]
   \<and> map_option exit_status (main env_remote ''k'' initial_world) = Some (Some 0)"
proof -
  have env:
    "os_ret env_remote = (\<lambda>f k.
         if f = malloc \<or> f = IOServiceGetMatchingService \<or> f = hid_allocQueue then 0x1000
         else if f = queue_getNextEvent \<and> 2 \<le> k then kIOReturnUnderrun
         else 0)"
    "os_hdi env_remote = Interface True"
    by (simp_all add: env_remote_def)
  have cookies: "getHIDCookies env_remote (Interface True) w =
      Return remote_cookies
        (w\<lparr>trace := trace w @ [(malloc, []), (hid_copyMatchingElements, [])],
           buttonNextID := 0x15, buttonPreviousID := 0x16\<rparr>)"
    if "calls malloc (trace w) = 0" and "calls hid_copyMatchingElements (trace w) = 0" for w
    using that by (simp add: eval_cookies env_remote_def remote_cookies_def)
  show ?thesis
    by (simp add: main_def setupAndRun_def createHIDDeviceInterface_def print_errmsg_if_io_err_def
          print_errmsg_if_err_def doRun_def processQueue_def addQueueCallbacks_def
          os_call_eq obind_def bind_def Let_def kIOReturnSuccess_def S_OK_def KERN_SUCCESS_def
          env cookies host_run_loop_remote passes_remote_trace initial_world_def
          del: passes.simps)
qed

subsection \<open>C5: a button identifier is zero unless its element was found\<close>

text \<open>
  Claim C5. Whenever \<open>getHIDCookies\<close> returns a record, each of its six fields is zero unless
  the element array of the device has an element with usage page Generic Desktop and the
  usage of that field; a record returned for a null handle has all six fields zero, and for a
  null handle the function does return that record once its allocation has succeeded.
\<close>
theorem getHIDCookies_zero_unless_found:
  "(\<forall>cookies w'. getHIDCookies env handle w = Return cookies w' \<longrightarrow>
      (gButtonCookie_SystemAppMenu cookies \<noteq> 0 \<longrightarrow>
         element_found kHIDUsage_GD_SystemAppMenu (os_elements env)) \<and>
      (gButtonCookie_SystemMenuSelect cookies \<noteq> 0 \<longrightarrow>
         element_found kHIDUsage_GD_SystemMenu (os_elements env)) \<and>
      (gButtonCookie_SystemMenuRight cookies \<noteq> 0 \<longrightarrow>
         element_found kHIDUsage_GD_SystemMenuRight (os_elements env)) \<and>
      (gButtonCookie_SystemMenuLeft cookies \<noteq> 0 \<longrightarrow>
         element_found kHIDUsage_GD_SystemMenuLeft (os_elements env)) \<and>
      (gButtonCookie_SystemMenuUp cookies \<noteq> 0 \<longrightarrow>
         element_found kHIDUsage_GD_SystemMenuUp (os_elements env)) \<and>
      (gButtonCookie_SystemMenuDown cookies \<noteq> 0 \<longrightarrow>
         element_found kHIDUsage_GD_SystemMenuDown (os_elements env)) \<and>
      (handle = NULL \<longrightarrow>
         cookies = \<lparr>gButtonCookie_SystemAppMenu = 0, gButtonCookie_SystemMenuSelect = 0,
                    gButtonCookie_SystemMenuRight = 0, gButtonCookie_SystemMenuLeft = 0,
                    gButtonCookie_SystemMenuUp = 0, gButtonCookie_SystemMenuDown = 0\<rparr>)) \<and>
   (os_ret env malloc (calls malloc (trace w)) \<noteq> 0 \<longrightarrow>
      getHIDCookies env NULL w =
        Return \<lparr>gButtonCookie_SystemAppMenu = 0, gButtonCookie_SystemMenuSelect = 0,
                gButtonCookie_SystemMenuRight = 0, gButtonCookie_SystemMenuLeft = 0,
                gButtonCookie_SystemMenuUp = 0, gButtonCookie_SystemMenuDown = 0\<rparr>
               (w\<lparr>trace := trace w @ [(malloc, [])]\<rparr>))"
proof (intro conjI allI impI)
  fix cookies w'
  assume r: "getHIDCookies env handle w = Return cookies w'"
  note R = getHIDCookies_Return [OF r, THEN conjunct2]
  have loop: "handle = Interface True \<Longrightarrow>
      cookies = fst (getHIDCookies_loop (os_elements env)
        (zero_cookies, w\<lparr>trace := trace w @ [(malloc, []), (hid_copyMatchingElements, [])]\<rparr>))"
    using R by simp
  have other: "handle \<noteq> Interface True \<Longrightarrow> cookies = zero_cookies"
    using R by simp
  show "element_found kHIDUsage_GD_SystemAppMenu (os_elements env)"
    if "gButtonCookie_SystemAppMenu cookies \<noteq> 0"
    using that loop other
    by (cases "handle = Interface True")
       (auto simp: getHIDCookies_loop_fields zero_cookies_def dest!: pick_zero intro: last_match_found)
  show "element_found kHIDUsage_GD_SystemMenu (os_elements env)"
    if "gButtonCookie_SystemMenuSelect cookies \<noteq> 0"
    using that loop other
    by (cases "handle = Interface True")
       (auto simp: getHIDCookies_loop_fields zero_cookies_def dest!: pick_zero intro: last_match_found)
  show "element_found kHIDUsage_GD_SystemMenuRight (os_elements env)"
    if "gButtonCookie_SystemMenuRight cookies \<noteq> 0"
    using that loop other
    by (cases "handle = Interface True")
       (auto simp: getHIDCookies_loop_fields zero_cookies_def dest!: pick_zero intro: last_match_found)
  show "element_found kHIDUsage_GD_SystemMenuLeft (os_elements env)"
    if "gButtonCookie_SystemMenuLeft cookies \<noteq> 0"
    using that loop other
    by (cases "handle = Interface True")
       (auto simp: getHIDCookies_loop_fields zero_cookies_def dest!: pick_zero intro: last_match_found)
  show "element_found kHIDUsage_GD_SystemMenuUp (os_elements env)"
    if "gButtonCookie_SystemMenuUp cookies \<noteq> 0"
    using that loop other
    by (cases "handle = Interface True")
       (auto simp: getHIDCookies_loop_fields zero_cookies_def dest!: pick_zero intro: last_match_found)
  show "element_found kHIDUsage_GD_SystemMenuDown (os_elements env)"
    if "gButtonCookie_SystemMenuDown cookies \<noteq> 0"
    using that loop other
    by (cases "handle = Interface True")
       (auto simp: getHIDCookies_loop_fields zero_cookies_def dest!: pick_zero intro: last_match_found)
  show "cookies = \<lparr>gButtonCookie_SystemAppMenu = 0, gButtonCookie_SystemMenuSelect = 0,
                    gButtonCookie_SystemMenuRight = 0, gButtonCookie_SystemMenuLeft = 0,
                    gButtonCookie_SystemMenuUp = 0, gButtonCookie_SystemMenuDown = 0\<rparr>"
    if "handle = NULL"
    using that other by (simp add: zero_cookies_def)
next
  assume "os_ret env malloc (calls malloc (trace w)) \<noteq> 0"
  then show "getHIDCookies env NULL w =
        Return \<lparr>gButtonCookie_SystemAppMenu = 0, gButtonCookie_SystemMenuSelect = 0,
                gButtonCookie_SystemMenuRight = 0, gButtonCookie_SystemMenuLeft = 0,
                gButtonCookie_SystemMenuUp = 0, gButtonCookie_SystemMenuDown = 0\<rparr>
               (w\<lparr>trace := trace w @ [(malloc, [])]\<rparr>)"
    by (simp add: getHIDCookies_def os_call_eq zero_cookies_def)
qed

theorem getHIDCookies_zero_unless_found_witness:
  "getHIDCookies env_remote (Interface True) initial_world
     = Return remote_cookies
         (initial_world\<lparr>trace := [(malloc, []), (hid_copyMatchingElements, [])],
            buttonNextID := 0x15, buttonPreviousID := 0x16\<rparr>)
   \<and> gButtonCookie_SystemMenuRight remote_cookies \<noteq> 0
   \<and> element_found kHIDUsage_GD_SystemMenuRight (os_elements env_remote)
   \<and> os_ret env_remote malloc (calls malloc (trace initial_world)) \<noteq> 0
   \<and> getHIDCookies env_remote NULL initial_world
       = Return \<lparr>gButtonCookie_SystemAppMenu = 0, gButtonCookie_SystemMenuSelect = 0,
                  gButtonCookie_SystemMenuRight = 0, gButtonCookie_SystemMenuLeft = 0,
                  gButtonCookie_SystemMenuUp = 0, gButtonCookie_SystemMenuDown = 0\<rparr>
                (initial_world\<lparr>trace := trace initial_world @ [(malloc, [])]\<rparr>)"
proof -
  have r: "getHIDCookies env_remote (Interface True) initial_world
     = Return remote_cookies
         (initial_world\<lparr>trace := [(malloc, []), (hid_copyMatchingElements, [])],
            buttonNextID := 0x15, buttonPreviousID := 0x16\<rparr>)"
    by (simp add: eval_cookies env_remote_def initial_world_def remote_cookies_def)
  have nz: "gButtonCookie_SystemMenuRight remote_cookies \<noteq> 0"
    by (simp add: remote_cookies_def)
  have m: "os_ret env_remote malloc (calls malloc (trace initial_world)) \<noteq> 0"
    by (simp add: env_remote_def)
  note inst = getHIDCookies_zero_unless_found [of env_remote "Interface True" initial_world]
  from inst r nz have "element_found kHIDUsage_GD_SystemMenuRight (os_elements env_remote)"
    by blast
  moreover from getHIDCookies_zero_unless_found [of env_remote _ initial_world] m
  have "getHIDCookies env_remote NULL initial_world
       = Return \<lparr>gButtonCookie_SystemAppMenu = 0, gButtonCookie_SystemMenuSelect = 0,
                  gButtonCookie_SystemMenuRight = 0, gButtonCookie_SystemMenuLeft = 0,
                  gButtonCookie_SystemMenuUp = 0, gButtonCookie_SystemMenuDown = 0\<rparr>
                (initial_world\<lparr>trace := trace initial_world @ [(malloc, [])]\<rparr>)"
    by blast
  ultimately show ?thesis using r nz m by blast
qed

subsection \<open>C6: the cached identifiers equal the fields of the record\<close>

text \<open>
  Claim C6. When the resolution of the cookies has returned, \<open>buttonNextID\<close> equals the
  field of the record for the right button and \<open>buttonPreviousID\<close> the field for the left
  button, each the cookie of the last matching element of the array, or zero when there is
  none. The two variables are 0 when \<open>getHIDCookies\<close> is called: lines 60-61 initialise them
  so, and by the theorem of C7 nothing that runs before writes them.
\<close>
theorem cached_identifiers_equal_record_fields:
  assumes "buttonNextID w = 0" and "buttonPreviousID w = 0"
      and "getHIDCookies env handle w = Return cookies w'"
  shows "buttonNextID w' = gButtonCookie_SystemMenuRight cookies
       \<and> buttonPreviousID w' = gButtonCookie_SystemMenuLeft cookies
       \<and> gButtonCookie_SystemMenuRight cookies =
           (case last_match kHIDUsage_GD_SystemMenuRight
                   (if handle = Interface True then os_elements env else []) of
              None \<Rightarrow> 0 | Some c \<Rightarrow> c)
       \<and> gButtonCookie_SystemMenuLeft cookies =
           (case last_match kHIDUsage_GD_SystemMenuLeft
                   (if handle = Interface True then os_elements env else []) of
              None \<Rightarrow> 0 | Some c \<Rightarrow> c)"
proof (cases "handle = Interface True")
  case True
  with getHIDCookies_Return [OF assms(3)] assms(1,2) show ?thesis
    by (simp add: getHIDCookies_loop_fields zero_cookies_def pick_def)
next
  case False
  with getHIDCookies_Return [OF assms(3)] assms(1,2) show ?thesis
    by (simp add: zero_cookies_def)
qed

theorem cached_identifiers_equal_record_fields_witness:
  "buttonNextID initial_world = 0 \<and> buttonPreviousID initial_world = 0
   \<and> getHIDCookies env_remote (Interface True) initial_world
     = Return remote_cookies
         (initial_world\<lparr>trace := [(malloc, []), (hid_copyMatchingElements, [])],
            buttonNextID := 0x15, buttonPreviousID := 0x16\<rparr>)
   \<and> gButtonCookie_SystemMenuRight remote_cookies = 0x15
   \<and> gButtonCookie_SystemMenuLeft remote_cookies = 0x16
   \<and> last_match kHIDUsage_GD_SystemMenuRight (os_elements env_remote) = Some 0x15
   \<and> last_match kHIDUsage_GD_SystemMenuLeft (os_elements env_remote) = Some 0x16"
proof -
  have z: "buttonNextID initial_world = 0" "buttonPreviousID initial_world = 0"
    by (simp_all add: initial_world_def)
  have r: "getHIDCookies env_remote (Interface True) initial_world
     = Return remote_cookies
         (initial_world\<lparr>trace := [(malloc, []), (hid_copyMatchingElements, [])],
            buttonNextID := 0x15, buttonPreviousID := 0x16\<rparr>)"
    by (simp add: eval_cookies env_remote_def initial_world_def remote_cookies_def)
  have f: "gButtonCookie_SystemMenuRight remote_cookies = 0x15
     \<and> gButtonCookie_SystemMenuLeft remote_cookies = 0x16"
    by (simp add: remote_cookies_def)
  from cached_identifiers_equal_record_fields [OF z r] f
  have "(case last_match kHIDUsage_GD_SystemMenuRight (os_elements env_remote) of
           None \<Rightarrow> 0 | Some c \<Rightarrow> c) = (0x15 :: 32 word)
      \<and> (case last_match kHIDUsage_GD_SystemMenuLeft (os_elements env_remote) of
           None \<Rightarrow> 0 | Some c \<Rightarrow> c) = (0x16 :: 32 word)"
    by simp
  then have "last_match kHIDUsage_GD_SystemMenuRight (os_elements env_remote) = Some 0x15
     \<and> last_match kHIDUsage_GD_SystemMenuLeft (os_elements env_remote) = Some 0x16"
    by (auto split: option.splits)
  with z r f show ?thesis by blast
qed

subsection \<open>C7: the callback never writes the two variables\<close>

text \<open>
  Claim C7. \<open>buttonNextID\<close> and \<open>buttonPreviousID\<close> are written during the resolution of the
  cookies only: every call of the callback leaves them unchanged, and so does all the code
  that runs once the event loop has started. The theorem covers the callback, a pass of its
  loop and \<open>KeynoteChangeSlide\<close>; the run loop, \<open>processQueue\<close> and \<open>doRun\<close>, which hold
  everything from the second \<^verbatim>\<open>open\<close> to the release of the device; and the functions that run
  before \<open>getHIDCookies\<close>, which leaves \<open>getHIDCookies\<close> as the one writer.
\<close>
theorem callback_leaves_button_identifiers_unchanged:
  "(\<forall>r. QueueCallbackFunction env w = Some r \<longrightarrow>
      buttonNextID (world_of r) = buttonNextID w
      \<and> buttonPreviousID (world_of r) = buttonPreviousID w)
   \<and> (\<forall>r. host_run_loop env w = Some r \<longrightarrow>
      buttonNextID (world_of r) = buttonNextID w
      \<and> buttonPreviousID (world_of r) = buttonPreviousID w)
   \<and> (\<forall>r. processQueue env cookies w = Some r \<longrightarrow>
      buttonNextID (world_of r) = buttonNextID w
      \<and> buttonPreviousID (world_of r) = buttonPreviousID w)
   \<and> (\<forall>r. doRun env cookies w = Some r \<longrightarrow>
      buttonNextID (world_of r) = buttonNextID w
      \<and> buttonPreviousID (world_of r) = buttonPreviousID w)
   \<and> buttonNextID (world_of (QueueCallback_body env w)) = buttonNextID w
   \<and> buttonPreviousID (world_of (QueueCallback_body env w)) = buttonPreviousID w
   \<and> buttonNextID (world_of (KeynoteChangeSlide env eventID w)) = buttonNextID w
   \<and> buttonPreviousID (world_of (KeynoteChangeSlide env eventID w)) = buttonPreviousID w
   \<and> buttonNextID (world_of (addQueueCallbacks env w)) = buttonNextID w
   \<and> buttonPreviousID (world_of (addQueueCallbacks env w)) = buttonPreviousID w
   \<and> buttonNextID (world_of (main_options opts w)) = buttonNextID w
   \<and> buttonPreviousID (world_of (main_options opts w)) = buttonPreviousID w
   \<and> buttonNextID (world_of (createHIDDeviceInterface env hidDevice hdi w)) = buttonNextID w
   \<and> buttonPreviousID (world_of (createHIDDeviceInterface env hidDevice hdi w)) = buttonPreviousID w"
  using globals_QueueCallbackFunction [of env w] globals_host_run_loop [of env w]
    globals_processQueue [of env cookies w] globals_doRun [of env cookies w]
    globals_QueueCallback_body [of env w] globals_KeynoteChangeSlide [of env eventID w]
    globals_addQueueCallbacks [of env w] globals_main_options [of opts w]
    globals_createHIDDeviceInterface [of env hidDevice hdi w]
  unfolding globals_eq by blast

theorem callback_leaves_button_identifiers_unchanged_witness:
  "QueueCallbackFunction env_remote remote_world = Some (Return () (passes env_remote 3 remote_world))
   \<and> buttonNextID (passes env_remote 3 remote_world) = 0x15
   \<and> buttonPreviousID (passes env_remote 3 remote_world) = 0x16
   \<and> host_run_loop env_remote remote_world
       = Some (Return () (remote_world\<lparr>trace := [(CFRunLoopRun, [])]\<rparr>))
   \<and> processQueue env_no_queue remote_cookies remote_world
       = Some (Return () (remote_world\<lparr>stderr := ''Failed to allocate event queue.'' @ [newline],
            trace := [(hid_allocQueue, [])]\<rparr>))
   \<and> doRun env_no_queue remote_cookies remote_world
       = Some (Return () (remote_world\<lparr>stderr := ''Failed to allocate event queue.'' @ [newline],
            trace := [(hid_open, [0]), (hid_allocQueue, []), (hid_close, []), (hid_Release, [])]\<rparr>))"
proof -
  have q: "QueueCallbackFunction env_remote remote_world
             = Some (Return () (passes env_remote (Suc 2) remote_world))"
    by (rule QueueCallbackFunction_terminates) (simp_all add: eval_remote)
  have s3: "Suc 2 = 3" by simp
  have h: "host_run_loop env_remote remote_world
       = Some (Return () (remote_world\<lparr>trace := [(CFRunLoopRun, [])]\<rparr>))"
    by (simp add: host_run_loop_def os_call_eq obind_def eval_remote)
  have p: "processQueue env_no_queue remote_cookies remote_world
       = Some (Return () (remote_world\<lparr>stderr := ''Failed to allocate event queue.'' @ [newline],
            trace := [(hid_allocQueue, [])]\<rparr>))"
    by (simp add: processQueue_def os_call_eq fprintf_stderr_def env_no_queue_def eval_remote)
  have d: "doRun env_no_queue remote_cookies remote_world
       = Some (Return () (remote_world\<lparr>stderr := ''Failed to allocate event queue.'' @ [newline],
            trace := [(hid_open, [0]), (hid_allocQueue, []), (hid_close, []), (hid_Release, [])]\<rparr>))"
    by (simp add: doRun_def processQueue_def os_call_eq fprintf_stderr_def obind_def
          env_no_queue_def eval_remote KERN_SUCCESS_def)
  note inst = callback_leaves_button_identifiers_unchanged
     [of env_remote remote_world remote_cookies slideForward "[]" 0 NULL]
  from inst q have "buttonNextID (passes env_remote (Suc 2) remote_world) = buttonNextID remote_world
     \<and> buttonPreviousID (passes env_remote (Suc 2) remote_world) = buttonPreviousID remote_world"
    by (metis world_of.simps(1))
  then have "buttonNextID (passes env_remote 3 remote_world) = 0x15
     \<and> buttonPreviousID (passes env_remote 3 remote_world) = 0x16"
    unfolding s3 by (simp add: remote_world_def)
  with q h p d show ?thesis unfolding s3 by blast
qed

subsection \<open>C8: the callback drains the queue\<close>

text \<open>
  Claim C8. Each call of the callback drains the queue: it calls \<^verbatim>\<open>getNextEvent\<close> again and
  again and handles every event it gets, and its loop ends exactly when \<^verbatim>\<open>getNextEvent\<close>
  returns a nonzero result, provided the queue yields finitely many events. The callback
  returns if and only if some later call of \<^verbatim>\<open>getNextEvent\<close> answers nonzero; when the first
  such answer comes after \<open>n\<close> events, the callback has made \<open>n + 1\<close> passes through its loop and
  as many calls of \<^verbatim>\<open>getNextEvent\<close>, has printed one line for each of the \<open>n\<close> events, in their
  order and nothing else, and has forwarded each of them that is a press of a navigation
  button.
\<close>
theorem QueueCallbackFunction_drains_queue:
  "(QueueCallbackFunction env w \<noteq> None \<longleftrightarrow>
      (\<exists>n. os_ret env queue_getNextEvent (calls queue_getNextEvent (trace w) + n) \<noteq> 0))
   \<and> (\<forall>n. (\<forall>i<n. os_ret env queue_getNextEvent (calls queue_getNextEvent (trace w) + i) = 0)
          \<and> os_ret env queue_getNextEvent (calls queue_getNextEvent (trace w) + n) \<noteq> 0 \<longrightarrow>
        QueueCallbackFunction env w = Some (Return () (passes env (Suc n) w))
        \<and> calls queue_getNextEvent (trace (passes env (Suc n) w))
            = calls queue_getNextEvent (trace w) + Suc n
        \<and> stdout (passes env (Suc n) w) = stdout w @ concat (map (\<lambda>i.
              fmt_alt_lx (elementCookie (os_event env (calls queue_getNextEvent (trace w) + i)))
              @ '' ''
              @ (if event_value (os_event env (calls queue_getNextEvent (trace w) + i)) = 0
                 then ''depressed'' else ''pressed'')
              @ [newline]) [0..<n])
        \<and> keynote_requests (trace (passes env (Suc n) w)) =
            keynote_requests (trace w) @ concat (map (\<lambda>i.
              if event_value (os_event env (calls queue_getNextEvent (trace w) + i)) \<noteq> 0
                 \<and> driveKeynote w \<noteq> 0
              then if elementCookie (os_event env (calls queue_getNextEvent (trace w) + i))
                        = buttonNextID w then [slideForward]
                   else if elementCookie (os_event env (calls queue_getNextEvent (trace w) + i))
                        = buttonPreviousID w then [slideBackward]
                   else []
              else []) [0..<n]))"
proof (intro conjI allI impI)
  show "QueueCallbackFunction env w \<noteq> None \<longleftrightarrow>
      (\<exists>n. os_ret env queue_getNextEvent (calls queue_getNextEvent (trace w) + n) \<noteq> 0)"
    by (rule QueueCallbackFunction_returns_iff)
next
  fix n
  assume a: "(\<forall>i<n. os_ret env queue_getNextEvent (calls queue_getNextEvent (trace w) + i) = 0)
          \<and> os_ret env queue_getNextEvent (calls queue_getNextEvent (trace w) + n) \<noteq> 0"
  then have a1: "\<forall>i<n. os_ret env queue_getNextEvent (calls queue_getNextEvent (trace w) + i) = 0"
    and a2: "os_ret env queue_getNextEvent (calls queue_getNextEvent (trace w) + n) \<noteq> 0"
    by simp_all
  show "QueueCallbackFunction env w = Some (Return () (passes env (Suc n) w))"
    using a1 a2 by (rule QueueCallbackFunction_terminates)
  show "calls queue_getNextEvent (trace (passes env (Suc n) w))
            = calls queue_getNextEvent (trace w) + Suc n"
    by (rule passes_calls)
  show "stdout (passes env (Suc n) w) = stdout w @ concat (map (\<lambda>i.
              fmt_alt_lx (elementCookie (os_event env (calls queue_getNextEvent (trace w) + i)))
              @ '' ''
              @ (if event_value (os_event env (calls queue_getNextEvent (trace w) + i)) = 0
                 then ''depressed'' else ''pressed'')
              @ [newline]) [0..<n])"
    using passes_stdout_events [OF a1] passes_stdout_last [OF a2] by simp
  show "keynote_requests (trace (passes env (Suc n) w)) =
            keynote_requests (trace w) @ concat (map (\<lambda>i.
              if event_value (os_event env (calls queue_getNextEvent (trace w) + i)) \<noteq> 0
                 \<and> driveKeynote w \<noteq> 0
              then if elementCookie (os_event env (calls queue_getNextEvent (trace w) + i))
                        = buttonNextID w then [slideForward]
                   else if elementCookie (os_event env (calls queue_getNextEvent (trace w) + i))
                        = buttonPreviousID w then [slideBackward]
                   else []
              else []) [0..<n])"
    using passes_requests_events [OF a1] passes_requests_last [OF a2] by simp
qed

theorem QueueCallbackFunction_drains_queue_witness:
  "os_ret env_remote queue_getNextEvent (calls queue_getNextEvent (trace remote_world) + 0) = 0
   \<and> os_ret env_remote queue_getNextEvent (calls queue_getNextEvent (trace remote_world) + 1) = 0
   \<and> os_ret env_remote queue_getNextEvent (calls queue_getNextEvent (trace remote_world) + 2) \<noteq> 0
   \<and> QueueCallbackFunction env_remote remote_world = Some (Return () (passes env_remote 3 remote_world))
   \<and> QueueCallbackFunction env_remote remote_world \<noteq> None
   \<and> calls queue_getNextEvent (trace (passes env_remote 3 remote_world)) = 3
   \<and> stdout (passes env_remote 3 remote_world)
       = ''0x15 pressed'' @ [newline] @ ''0x15 depressed'' @ [newline]
   \<and> keynote_requests (trace (passes env_remote 3 remote_world)) = [slideForward]"
proof -
  have h1: "\<forall>i<2. os_ret env_remote queue_getNextEvent
              (calls queue_getNextEvent (trace remote_world) + i) = 0"
    by (simp add: eval_remote)
  have h2: "os_ret env_remote queue_getNextEvent
              (calls queue_getNextEvent (trace remote_world) + 2) \<noteq> 0"
    by (simp add: eval_remote)
  have h0: "os_ret env_remote queue_getNextEvent
              (calls queue_getNextEvent (trace remote_world) + 0) = 0
            \<and> os_ret env_remote queue_getNextEvent
              (calls queue_getNextEvent (trace remote_world) + 1) = 0"
    by (simp add: eval_remote)
  have s3: "Suc 2 = 3" by simp
  have hex: "fmt_alt_lx 0x15 = ''0x15''"
    by (simp add: fmt_alt_lx_def show_hex.simps hex_digit_def)
  from QueueCallbackFunction_drains_queue [of env_remote remote_world, THEN conjunct2,
         rule_format, of 2] h1 h2
  have "QueueCallbackFunction env_remote remote_world
          = Some (Return () (passes env_remote (Suc 2) remote_world))
        \<and> calls queue_getNextEvent (trace (passes env_remote (Suc 2) remote_world))
            = calls queue_getNextEvent (trace remote_world) + Suc 2
        \<and> stdout (passes env_remote (Suc 2) remote_world) = stdout remote_world @ concat (map (\<lambda>i.
              fmt_alt_lx (elementCookie (os_event env_remote (calls queue_getNextEvent (trace remote_world) + i)))
              @ '' ''
              @ (if event_value (os_event env_remote (calls queue_getNextEvent (trace remote_world) + i)) = 0
                 then ''depressed'' else ''pressed'')
              @ [newline]) [0..<2])
        \<and> keynote_requests (trace (passes env_remote (Suc 2) remote_world)) =
            keynote_requests (trace remote_world) @ concat (map (\<lambda>i.
              if event_value (os_event env_remote (calls queue_getNextEvent (trace remote_world) + i)) \<noteq> 0
                 \<and> driveKeynote remote_world \<noteq> 0
              then if elementCookie (os_event env_remote (calls queue_getNextEvent (trace remote_world) + i))
                        = buttonNextID remote_world then [slideForward]
                   else if elementCookie (os_event env_remote (calls queue_getNextEvent (trace remote_world) + i))
                        = buttonPreviousID remote_world then [slideBackward]
                   else []
              else []) [0..<2])"
    by blast
  then have "QueueCallbackFunction env_remote remote_world
          = Some (Return () (passes env_remote 3 remote_world))
        \<and> calls queue_getNextEvent (trace (passes env_remote 3 remote_world)) = 3
        \<and> stdout (passes env_remote 3 remote_world)
            = ''0x15 pressed'' @ [newline] @ ''0x15 depressed'' @ [newline]
        \<and> keynote_requests (trace (passes env_remote 3 remote_world)) = [slideForward]"
    unfolding s3 by (simp add: eval_remote hex numeral_2_eq_2 del: passes.simps)
  with h0 h2 show ?thesis by blast
qed

subsection \<open>C9: the next button takes precedence\<close>

text \<open>
  Claim C9. For a press event whose cookie equals both cached identifiers, as when both are
  unresolved and the cookie is 0, only the forward action is requested, never the backward
  one.
\<close>
theorem next_button_takes_precedence:
  assumes "os_ret env queue_getNextEvent (calls queue_getNextEvent (trace w)) = 0"
      and "event_value (os_event env (calls queue_getNextEvent (trace w))) \<noteq> 0"
      and "elementCookie (os_event env (calls queue_getNextEvent (trace w))) = buttonNextID w"
      and "elementCookie (os_event env (calls queue_getNextEvent (trace w))) = buttonPreviousID w"
  shows "keynote_requests (trace (world_of (QueueCallback_body env w)))
           = keynote_requests (trace w) @ (if driveKeynote w \<noteq> 0 then [slideForward] else [])
         \<and> keynote_requests (trace (world_of (QueueCallback_body env w)))
           \<noteq> keynote_requests (trace w) @ [slideBackward]
         \<and> slideBackward \<notin> set (drop (length (keynote_requests (trace w)))
               (keynote_requests (trace (world_of (QueueCallback_body env w)))))"
  using assms
  by (simp add: QueueCallback_body_requests next_ret_def next_event_def slide_distinct
        slide_distinct [symmetric])

theorem next_button_takes_precedence_witness:
  "os_ret env_unresolved queue_getNextEvent (calls queue_getNextEvent (trace unresolved_world)) = 0
   \<and> event_value (os_event env_unresolved (calls queue_getNextEvent (trace unresolved_world))) \<noteq> 0
   \<and> elementCookie (os_event env_unresolved (calls queue_getNextEvent (trace unresolved_world)))
       = buttonNextID unresolved_world
   \<and> elementCookie (os_event env_unresolved (calls queue_getNextEvent (trace unresolved_world)))
       = buttonPreviousID unresolved_world
   \<and> buttonNextID unresolved_world = 0
   \<and> keynote_requests (trace (world_of (QueueCallback_body env_unresolved unresolved_world)))
       = [slideForward]"
proof -
  have h1: "os_ret env_unresolved queue_getNextEvent
              (calls queue_getNextEvent (trace unresolved_world)) = 0"
    by (simp add: env_unresolved_def unresolved_world_def eval_remote)
  have h2: "event_value (os_event env_unresolved
              (calls queue_getNextEvent (trace unresolved_world))) \<noteq> 0"
    by (simp add: env_unresolved_def unresolved_world_def eval_remote)
  have h3: "elementCookie (os_event env_unresolved
              (calls queue_getNextEvent (trace unresolved_world))) = buttonNextID unresolved_world"
    by (simp add: env_unresolved_def unresolved_world_def eval_remote)
  have h4: "elementCookie (os_event env_unresolved
              (calls queue_getNextEvent (trace unresolved_world))) = buttonPreviousID unresolved_world"
    by (simp add: env_unresolved_def unresolved_world_def eval_remote)
  have z: "buttonNextID unresolved_world = 0 \<and> driveKeynote unresolved_world \<noteq> 0
           \<and> keynote_requests (trace unresolved_world) = []"
    by (simp add: unresolved_world_def eval_remote)
  from next_button_takes_precedence [OF h1 h2 h3 h4] z
  have "keynote_requests (trace (world_of (QueueCallback_body env_unresolved unresolved_world)))
       = [slideForward]"
    by simp
  with h1 h2 h3 h4 z show ?thesis by blast
qed

subsection \<open>C10: a failure to build or send the Apple event\<close>

text \<open>
  Claim C10. When \<^verbatim>\<open>AEBuildAppleEvent\<close> returns a nonzero status, \<open>KeynoteChangeSlide\<close> writes
  the failure to standard error and returns that status without calling \<^verbatim>\<open>AESend\<close>; neither
  that failure nor a failure of \<^verbatim>\<open>AESend\<close> ends the process: \<open>KeynoteChangeSlide\<close> returns to
  the callback, and the pass of the loop that called it returns too.
\<close>
theorem KeynoteChangeSlide_build_failure:
  "(os_ret env AEBuildAppleEvent (calls AEBuildAppleEvent (trace w)) \<noteq> noErr \<longrightarrow>
      KeynoteChangeSlide env eventID w =
        Return (os_ret env AEBuildAppleEvent (calls AEBuildAppleEvent (trace w)))
          (w\<lparr>stderr := stderr w @ ''Failed to build Apple event (error ''
                 @ fmt_d (os_ret env AEBuildAppleEvent (calls AEBuildAppleEvent (trace w)))
                 @ '').'' @ [newline],
             trace := trace w @ [(AEBuildAppleEvent, [keynoteEventClass, eventID])]\<rparr>))
   \<and> (os_ret env AEBuildAppleEvent (calls AEBuildAppleEvent (trace w)) = noErr
       \<and> os_ret env AESend (calls AESend (trace w)) \<noteq> noErr \<longrightarrow>
      KeynoteChangeSlide env eventID w =
        Return (os_ret env AESend (calls AESend (trace w)))
          (w\<lparr>stderr := stderr w @ ''Failed to send Apple event (error ''
                 @ fmt_d (os_ret env AESend (calls AESend (trace w))) @ '').'' @ [newline],
             trace := trace w @ [(AEBuildAppleEvent, [keynoteEventClass, eventID]), (AESend, []),
                                 (AEDisposeDesc, []), (AEDisposeDesc, [])]\<rparr>))
   \<and> (\<exists>err w'. KeynoteChangeSlide env eventID w = Return err w')
   \<and> (\<exists>w'. QueueCallback_body env w
             = Return (os_ret env queue_getNextEvent (calls queue_getNextEvent (trace w))) w')"
proof (intro conjI impI)
  show "\<exists>err w'. KeynoteChangeSlide env eventID w = Return err w'"
    using KeynoteChangeSlide_returns [of env eventID w] by blast
  show "\<exists>w'. QueueCallback_body env w
             = Return (os_ret env queue_getNextEvent (calls queue_getNextEvent (trace w))) w'"
    using QueueCallback_body_returns [of env w] by (auto simp: next_ret_def)
qed (simp_all add: KeynoteChangeSlide_def os_call_eq fprintf_stderr_def Let_def)

theorem KeynoteChangeSlide_build_failure_witness:
  "os_ret env_build_fails AEBuildAppleEvent (calls AEBuildAppleEvent (trace remote_world)) \<noteq> noErr
   \<and> KeynoteChangeSlide env_build_fails slideForward remote_world =
        Return paramErr
          (remote_world\<lparr>stderr := ''Failed to build Apple event (error -50).'' @ [newline],
             trace := [(AEBuildAppleEvent, [keynoteEventClass, slideForward])]\<rparr>)
   \<and> os_ret env_send_fails AEBuildAppleEvent (calls AEBuildAppleEvent (trace remote_world)) = noErr
   \<and> os_ret env_send_fails AESend (calls AESend (trace remote_world)) \<noteq> noErr
   \<and> KeynoteChangeSlide env_send_fails slideBackward remote_world =
        Return procNotFound
          (remote_world\<lparr>stderr := ''Failed to send Apple event (error -600).'' @ [newline],
             trace := [(AEBuildAppleEvent, [keynoteEventClass, slideBackward]), (AESend, []),
                       (AEDisposeDesc, []), (AEDisposeDesc, [])]\<rparr>)"
proof -
  have b: "os_ret env_build_fails AEBuildAppleEvent (calls AEBuildAppleEvent (trace remote_world))
             \<noteq> noErr"
    by (simp add: env_build_fails_def eval_remote paramErr_def noErr_def)
  have s: "os_ret env_send_fails AEBuildAppleEvent (calls AEBuildAppleEvent (trace remote_world))
             = noErr
           \<and> os_ret env_send_fails AESend (calls AESend (trace remote_world)) \<noteq> noErr"
    by (simp add: env_send_fails_def eval_remote procNotFound_def noErr_def)
  have d50: "fmt_d paramErr = ''-50''"
    by (simp add: fmt_d_def paramErr_def show_dec.simps hex_digit_def)
  have d600: "fmt_d procNotFound = ''-600''"
    by (simp add: fmt_d_def procNotFound_def show_dec.simps hex_digit_def)
  from KeynoteChangeSlide_build_failure [of env_build_fails remote_world slideForward] b
  have "KeynoteChangeSlide env_build_fails slideForward remote_world =
        Return paramErr
          (remote_world\<lparr>stderr := ''Failed to build Apple event (error -50).'' @ [newline],
             trace := [(AEBuildAppleEvent, [keynoteEventClass, slideForward])]\<rparr>)"
    by (simp add: env_build_fails_def eval_remote d50)
  moreover
  from KeynoteChangeSlide_build_failure [of env_send_fails remote_world slideBackward] s
  have "KeynoteChangeSlide env_send_fails slideBackward remote_world =
        Return procNotFound
          (remote_world\<lparr>stderr := ''Failed to send Apple event (error -600).'' @ [newline],
             trace := [(AEBuildAppleEvent, [keynoteEventClass, slideBackward]), (AESend, []),
                       (AEDisposeDesc, []), (AEDisposeDesc, [])]\<rparr>)"
    by (simp add: env_send_fails_def eval_remote d600 [unfolded procNotFound_def]
          procNotFound_def noErr_def)
  ultimately show ?thesis using b s by blast
qed

end
